theory Spec2Isabelle
  imports Complex_Main "HOL-Library.Word"
begin

section \<open>Python values used by the application\<close>

text \<open>
  A Python \<open>str\<close> is a sequence of Unicode code points, so it is modelled as a list of
  integers (one number per code point, as \<open>ord\<close> gives it), not as a list of 8-bit characters:
  \<open>len\<close>, indexing, slicing, \<open>strip\<close>, \<open>find\<close> and \<open>split\<close> all count code points, and
  the fixed texts of the application contain code points above 255.
  \<open>ascii\<close> turns an ASCII literal into such a string.
\<close>

type_synonym codepoint = int
type_synonym str = "codepoint list"

definition ascii :: "string \<Rightarrow> str" where
  "ascii s = map of_char s"

datatype error =
    ValueError string
  | NameError string
  | KeyError
  | IndexError
  | TypeError
  | AttributeError
  | ZeroDivisionError
  | WaveError
  | UnicodeDecodeError
  | RuntimeError string
  | ServiceError

text \<open>
  \<open>str.isspace\<close> for one code point: the whitespace table of CPython
  (\<open>_PyUnicode_IsWhitespace\<close>). \<open>str.strip()\<close> without argument removes these from both
  ends.
\<close>

definition py_isspace :: "codepoint \<Rightarrow> bool" where
  "py_isspace c \<longleftrightarrow>
     (0x09 \<le> c \<and> c \<le> 0x0D) \<or> (0x1C \<le> c \<and> c \<le> 0x20) \<or> c = 0x85 \<or> c = 0xA0 \<or>
     c = 0x1680 \<or> (0x2000 \<le> c \<and> c \<le> 0x200A) \<or> c = 0x2028 \<or> c = 0x2029 \<or>
     c = 0x202F \<or> c = 0x205F \<or> c = 0x3000"

definition py_strip :: "str \<Rightarrow> str" where
  "py_strip s = rev (dropWhile py_isspace (rev (dropWhile py_isspace s)))"

definition startswith :: "'a list \<Rightarrow> 'a list \<Rightarrow> bool" where
  "startswith s p \<longleftrightarrow> take (length p) s = p"

text \<open>\<open>sub in s\<close> for strings: some suffix of \<open>s\<close> starts with \<open>sub\<close>.\<close>

fun py_contains :: "'a list \<Rightarrow> 'a list \<Rightarrow> bool" where
  "py_contains sub [] = (sub = [])"
| "py_contains sub (c # cs) = (startswith (c # cs) sub \<or> py_contains sub cs)"

text \<open>
  \<open>s.split(sep)\<close> with a separator: cut at the leftmost occurrences, left to right,
  without overlap. Python raises \<open>ValueError\<close> for an empty separator; the application
  only splits on the three-backtick fence and on the newline, and the model returns the
  whole string as one piece in that case.
\<close>

function py_split :: "'a list \<Rightarrow> 'a list \<Rightarrow> 'a list list" where
  "py_split sep [] = [[]]"
| "py_split sep (c # cs) =
     (if sep \<noteq> [] \<and> startswith (c # cs) sep
      then [] # py_split sep (drop (length sep) (c # cs))
      else (case py_split sep cs of
              [] \<Rightarrow> [[c]]
            | p # ps \<Rightarrow> (c # p) # ps))"
  by pat_completeness auto
termination
  by (relation "measure (\<lambda>(sep, s). length s)") (auto simp: neq_Nil_conv)

text \<open>\<open>s.find(c)\<close> for a one-character needle: the first index, or \<open>-1\<close>.\<close>

fun py_find :: "'a list \<Rightarrow> 'a \<Rightarrow> int" where
  "py_find [] c = -1"
| "py_find (x # xs) c =
     (if x = c then 0 else (let i = py_find xs c in if i = -1 then -1 else i + 1))"

text \<open>\<open>s[i:j]\<close> for \<open>0 \<le> i\<close> and \<open>0 \<le> j\<close>.\<close>

definition slice :: "'a list \<Rightarrow> nat \<Rightarrow> nat \<Rightarrow> 'a list" where
  "slice s i j = take (j - i) (drop i s)"

section \<open>JSON values and \<open>json.loads\<close>\<close>

text \<open>
  The value \<open>json.loads\<close> returns: \<open>None\<close>, a bool, an int, a float, a str, a list or a
  dict. A float is kept as the text of its literal (\<open>1.5e3\<close>, \<open>NaN\<close>, \<open>-Infinity\<close>);
  no floating-point arithmetic is done on it. A dict keeps its keys in insertion order,
  a repeated key keeping its first position and its last value, as \<open>dict(pairs)\<close> does.
\<close>

datatype json =
    JNull
  | JBool bool
  | JInt int
  | JFloat str
  | JString str
  | JList "json list"
  | JDict "(str \<times> json) list"

fun dict_set :: "'k \<Rightarrow> 'v \<Rightarrow> ('k \<times> 'v) list \<Rightarrow> ('k \<times> 'v) list" where
  "dict_set k v [] = [(k, v)]"
| "dict_set k v ((k', v') # d) =
     (if k = k' then (k, v) # d else (k', v') # dict_set k v d)"

definition dict_of_pairs :: "('k \<times> 'v) list \<Rightarrow> ('k \<times> 'v) list" where
  "dict_of_pairs ps = foldl (\<lambda>d (k, v). dict_set k v d) [] ps"

definition dict_get :: "('k \<times> 'v) list \<Rightarrow> 'k \<Rightarrow> 'v option" where
  "dict_get d k = map_of d k"

text \<open>
  The decoder follows CPython's \<open>json.decoder\<close> and \<open>json.scanner\<close> with the default
  options (\<open>strict=True\<close>, no hooks): whitespace is space, tab, line feed and carriage
  return; a number is the longest match of
  \<open>-?(0|[1-9][0-9]*)(\.[0-9]+)?([eE][-+]?[0-9]+)?\<close>; the constants \<open>NaN\<close>, \<open>Infinity\<close>
  and \<open>-Infinity\<close> are accepted; a string may not contain a raw control character.
  Any failure is \<open>None\<close>: every caller in this application catches the exception.
  One limit of the interpreter is not modelled: the recursion limit on deeply nested
  input, which depends on the depth of the call stack at the time of the call.
\<close>

definition is_json_ws :: "codepoint \<Rightarrow> bool" where
  "is_json_ws c \<longleftrightarrow> c = 0x20 \<or> c = 0x09 \<or> c = 0x0A \<or> c = 0x0D"

definition skip_ws :: "str \<Rightarrow> str" where
  "skip_ws s = dropWhile is_json_ws s"

definition is_digit :: "codepoint \<Rightarrow> bool" where
  "is_digit c \<longleftrightarrow> 0x30 \<le> c \<and> c \<le> 0x39"

definition digits_value :: "str \<Rightarrow> int" where
  "digits_value ds = foldl (\<lambda>a d. 10 * a + (d - 0x30)) 0 ds"

fun hexval :: "codepoint \<Rightarrow> int option" where
  "hexval c =
     (if 0x30 \<le> c \<and> c \<le> 0x39 then Some (c - 0x30)
      else if 0x61 \<le> c \<and> c \<le> 0x66 then Some (c - 0x61 + 10)
      else if 0x41 \<le> c \<and> c \<le> 0x46 then Some (c - 0x41 + 10)
      else None)"

text \<open>The four hexadecimal digits of a \<open>\uXXXX\<close> escape, at the head of the input.\<close>

fun decode_uXXXX :: "str \<Rightarrow> int option" where
  "decode_uXXXX (a # b # c # d # rest) =
     (case (hexval a, hexval b, hexval c, hexval d) of
        (Some x3, Some x2, Some x1, Some x0) \<Rightarrow> Some (((x3 * 16 + x2) * 16 + x1) * 16 + x0)
      | _ \<Rightarrow> None)"
| "decode_uXXXX _ = None"

fun backslash :: "codepoint \<Rightarrow> codepoint option" where
  "backslash e =
     (if e = 0x22 then Some 0x22
      else if e = 0x5C then Some 0x5C
      else if e = 0x2F then Some 0x2F
      else if e = 0x62 then Some 0x08
      else if e = 0x66 then Some 0x0C
      else if e = 0x6E then Some 0x0A
      else if e = 0x72 then Some 0x0D
      else if e = 0x74 then Some 0x09
      else None)"

definition cons_chunk :: "codepoint \<Rightarrow> (str \<times> str) option \<Rightarrow> (str \<times> str) option" where
  "cons_chunk c r = (case r of None \<Rightarrow> None | Some (x, rest) \<Rightarrow> Some (c # x, rest))"

text \<open>
  \<open>scanstring\<close>: the input starts after the opening quote; the result is the decoded
  string and the input after the closing quote.
\<close>

function scanstring :: "str \<Rightarrow> (str \<times> str) option" where
  "scanstring [] = None"
| "scanstring (c # cs) =
     (if c = 0x22 then Some ([], cs)
      else if c = 0x5C then
        (case cs of
           [] \<Rightarrow> None
         | e # es \<Rightarrow>
             if e = 0x75 then
               (case decode_uXXXX es of
                  None \<Rightarrow> None
                | Some uni \<Rightarrow>
                    if 0xD800 \<le> uni \<and> uni \<le> 0xDBFF \<and> take 2 (drop 4 es) = [0x5C, 0x75] then
                      (case decode_uXXXX (drop 6 es) of
                         None \<Rightarrow> None
                       | Some uni2 \<Rightarrow>
                           if 0xDC00 \<le> uni2 \<and> uni2 \<le> 0xDFFF
                           then cons_chunk (0x10000 + ((uni - 0xD800) * 1024 + (uni2 - 0xDC00)))
                                  (scanstring (drop 10 es))
                           else cons_chunk uni (scanstring (drop 4 es)))
                    else cons_chunk uni (scanstring (drop 4 es)))
             else
               (case backslash e of
                  None \<Rightarrow> None
                | Some ch \<Rightarrow> cons_chunk ch (scanstring es)))
      else if c < 0x20 then None
      else cons_chunk c (scanstring cs))"
  by pat_completeness auto
termination
  by (relation "measure length") auto

text \<open>
  The number pattern, matched at the head of the input. An integer literal is converted
  with \<open>int\<close>, which raises \<open>ValueError\<close> when the literal has more digits than the
  interpreter's limit for integer string conversion (\<open>sys.get_int_max_str_digits()\<close>,
  4300 unless the process changes it; this application does not).
\<close>

definition int_max_str_digits :: nat where
  "int_max_str_digits = 4300"

definition match_number :: "str \<Rightarrow> (json \<times> str) option" where
  "match_number s =
     (let (sign, s1) = (case s of c # cs \<Rightarrow> if c = 0x2D then ([c], cs) else ([], s) | [] \<Rightarrow> ([], s))
      in case s1 of
           [] \<Rightarrow> None
         | d # ds \<Rightarrow>
             if \<not> is_digit d then None
             else
               let (ipart, r1) = (if d = 0x30 then ([d], ds)
                                  else (takeWhile is_digit s1, dropWhile is_digit s1));
                   (frac, r2) = (case r1 of
                                   p # fs \<Rightarrow> if p = 0x2E \<and> takeWhile is_digit fs \<noteq> []
                                             then (p # takeWhile is_digit fs, dropWhile is_digit fs)
                                             else ([], r1)
                                 | [] \<Rightarrow> ([], r1));
                   (expo, r3) = (case r2 of
                                   e # es \<Rightarrow>
                                     if e = 0x65 \<or> e = 0x45 then
                                       (let (sg, es') = (case es of
                                                           g # gs \<Rightarrow> if g = 0x2B \<or> g = 0x2D
                                                                     then ([g], gs) else ([], es)
                                                         | [] \<Rightarrow> ([], es))
                                        in if takeWhile is_digit es' \<noteq> []
                                           then (e # sg @ takeWhile is_digit es', dropWhile is_digit es')
                                           else ([], r2))
                                     else ([], r2)
                                 | [] \<Rightarrow> ([], r2))
               in if frac = [] \<and> expo = []
                  then (if length ipart > int_max_str_digits then None
                        else Some (JInt (if sign = [] then digits_value ipart
                                         else - digits_value ipart), r3))
                  else Some (JFloat (sign @ ipart @ frac @ expo), r3))"

text \<open>
  \<open>scan_once\<close>, \<open>JSONArray\<close> and \<open>JSONObject\<close>. The first argument bounds the depth of
  nesting plus the number of items; \<open>json_loads\<close> starts with more than the length of
  the text, which the descent cannot use up (each nested value and each item consumes a
  character).
\<close>

fun scan_once :: "nat \<Rightarrow> str \<Rightarrow> (json \<times> str) option"
  and array_items :: "nat \<Rightarrow> str \<Rightarrow> (json list \<times> str) option"
  and object_pairs :: "nat \<Rightarrow> str \<Rightarrow> ((str \<times> json) list \<times> str) option"
where
  "scan_once 0 s = None"
| "scan_once (Suc n) [] = None"
| "scan_once (Suc n) (c # cs) =
     (if c = 0x22 then
        (case scanstring cs of None \<Rightarrow> None | Some (x, r) \<Rightarrow> Some (JString x, r))
      else if c = 0x7B then
        (case skip_ws cs of
           [] \<Rightarrow> None
         | d # ds \<Rightarrow>
             if d = 0x7D then Some (JDict [], ds)
             else if d = 0x22 then
               (case object_pairs n ds of
                  None \<Rightarrow> None
                | Some (ps, r) \<Rightarrow> Some (JDict (dict_of_pairs ps), r))
             else None)
      else if c = 0x5B then
        (case skip_ws cs of
           [] \<Rightarrow> None
         | d # ds \<Rightarrow>
             if d = 0x5D then Some (JList [], ds)
             else
               (case array_items n (d # ds) of
                  None \<Rightarrow> None
                | Some (vs, r) \<Rightarrow> Some (JList vs, r)))
      else if startswith (c # cs) (ascii ''null'') then Some (JNull, drop 4 (c # cs))
      else if startswith (c # cs) (ascii ''true'') then Some (JBool True, drop 4 (c # cs))
      else if startswith (c # cs) (ascii ''false'') then Some (JBool False, drop 5 (c # cs))
      else
        (case match_number (c # cs) of
           Some r \<Rightarrow> Some r
         | None \<Rightarrow>
             if startswith (c # cs) (ascii ''NaN'') then
               Some (JFloat (ascii ''NaN''), drop 3 (c # cs))
             else if startswith (c # cs) (ascii ''Infinity'') then
               Some (JFloat (ascii ''Infinity''), drop 8 (c # cs))
             else if startswith (c # cs) (ascii ''-Infinity'') then
               Some (JFloat (ascii ''-Infinity''), drop 9 (c # cs))
             else None))"
| "array_items 0 s = None"
| "array_items (Suc n) s =
     (case scan_once (Suc n) s of
        None \<Rightarrow> None
      | Some (v, r) \<Rightarrow>
          (case skip_ws r of
             [] \<Rightarrow> None
           | d # ds \<Rightarrow>
               if d = 0x5D then Some ([v], ds)
               else if d = 0x2C then
                 (case array_items n (skip_ws ds) of
                    None \<Rightarrow> None
                  | Some (vs, r') \<Rightarrow> Some (v # vs, r'))
               else None))"
| "object_pairs 0 s = None"
| "object_pairs (Suc n) s =
     (case scanstring s of
        None \<Rightarrow> None
      | Some (key, r) \<Rightarrow>
          (case skip_ws r of
             [] \<Rightarrow> None
           | c # cs \<Rightarrow>
               if c \<noteq> 0x3A then None
               else
                 (case scan_once (Suc n) (skip_ws cs) of
                    None \<Rightarrow> None
                  | Some (v, r') \<Rightarrow>
                      (case skip_ws r' of
                         [] \<Rightarrow> None
                       | d # ds \<Rightarrow>
                           if d = 0x7D then Some ([(key, v)], ds)
                           else if d = 0x2C then
                             (case skip_ws ds of
                                [] \<Rightarrow> None
                              | q # qs \<Rightarrow>
                                  if q \<noteq> 0x22 then None
                                  else
                                    (case object_pairs n qs of
                                       None \<Rightarrow> None
                                     | Some (ps, r'') \<Rightarrow> Some ((key, v) # ps, r'')))
                           else None))))"

definition json_loads :: "str \<Rightarrow> json option" where
  "json_loads s =
     (case scan_once (Suc (length s)) (skip_ws s) of
        None \<Rightarrow> None
      | Some (v, r) \<Rightarrow> if skip_ws r = [] then Some v else None)"

section \<open>Structured-output recovery: \<open>safe_json_from_model\<close>\<close>

definition fence :: str where
  "fence = ascii ''```''"

text \<open>Strategy 2, the loop over the pieces between fences.\<close>

fun fence_parts :: "str list \<Rightarrow> json option" where
  "fence_parts [] = None"
| "fence_parts (part # parts) =
     (let candidate = py_strip part
      in if startswith candidate [0x5B] \<or> startswith candidate [0x7B]
         then (case json_loads candidate of
                 Some v \<Rightarrow> Some v
               | None \<Rightarrow> fence_parts parts)
         else fence_parts parts)"

definition fence_strategy :: "str \<Rightarrow> json option" where
  "fence_strategy raw =
     (if py_contains fence raw then fence_parts (py_split fence raw) else None)"

text \<open>
  Strategy 3, the inner loop \<open>for end in range(start + 1, len(raw))\<close>, entered at
  \<open>e\<close>.
\<close>

function scan_ends :: "str \<Rightarrow> nat \<Rightarrow> codepoint \<Rightarrow> nat \<Rightarrow> json option" where
  "scan_ends raw start close_char e =
     (if e < length raw then
        (if raw ! e = close_char then
           (case json_loads (slice raw start (e + 1)) of
              Some v \<Rightarrow> Some v
            | None \<Rightarrow> scan_ends raw start close_char (e + 1))
         else scan_ends raw start close_char (e + 1))
      else None)"
  by pat_completeness auto
termination
  by (relation "measure (\<lambda>(raw, start, close_char, e). length raw - e)") auto

declare scan_ends.simps [simp del]

text \<open>Strategy 3, the outer loop over the bracket pairs.\<close>

fun bracket_scan :: "str \<Rightarrow> (codepoint \<times> codepoint) list \<Rightarrow> json option" where
  "bracket_scan raw [] = None"
| "bracket_scan raw ((open_char, close_char) # pairs) =
     (let start = py_find raw open_char
      in if start \<noteq> -1 then
           (case scan_ends raw (nat start) close_char (nat start + 1) of
              Some v \<Rightarrow> Some v
            | None \<Rightarrow> bracket_scan raw pairs)
         else bracket_scan raw pairs)"

definition safe_json_from_model :: "str \<Rightarrow> error + json" where
  "safe_json_from_model raw0 =
     (let raw = py_strip raw0
      in case json_loads raw of
           Some v \<Rightarrow> Inr v
         | None \<Rightarrow>
             (case fence_strategy raw of
                Some v \<Rightarrow> Inr v
              | None \<Rightarrow>
                  (case bracket_scan raw [(0x5B, 0x5D), (0x7B, 0x7D)] of
                     Some v \<Rightarrow> Inr v
                   | None \<Rightarrow> Inl (ValueError ''Could not extract JSON from model output.''))))"

text \<open>
  The reading of the bracket scan in the specification: the first occurrence of the
  opening character, and from there the nearest occurrence of the closing character such
  that the text between them, both included, parses.
\<close>

definition first_index :: "'a list \<Rightarrow> 'a \<Rightarrow> nat \<Rightarrow> bool" where
  "first_index s c i \<longleftrightarrow> i < length s \<and> s ! i = c \<and> (\<forall>j \<in> {..<i}. s ! j \<noteq> c)"

definition candidate_at :: "str \<Rightarrow> nat \<Rightarrow> codepoint \<Rightarrow> nat \<Rightarrow> bool" where
  "candidate_at raw start close_char e \<longleftrightarrow>
     start < e \<and> e < length raw \<and> raw ! e = close_char \<and>
     json_loads (slice raw start (e + 1)) \<noteq> None"

definition shortest_bracketed :: "str \<Rightarrow> codepoint \<Rightarrow> codepoint \<Rightarrow> json \<Rightarrow> bool" where
  "shortest_bracketed raw open_char close_char v \<longleftrightarrow>
     (\<exists>start \<in> {..<length raw}. first_index raw open_char start \<and>
        (\<exists>e \<in> {start<..<length raw}.
           candidate_at raw start close_char e \<and>
           json_loads (slice raw start (e + 1)) = Some v \<and>
           (\<forall>e' \<in> {start<..<e}. \<not> candidate_at raw start close_char e')))"

definition none_bracketed :: "str \<Rightarrow> codepoint \<Rightarrow> codepoint \<Rightarrow> bool" where
  "none_bracketed raw open_char close_char \<longleftrightarrow>
     (\<forall>start \<in> {..<length raw}. first_index raw open_char start \<longrightarrow>
        (\<forall>e \<in> {start<..<length raw}. \<not> candidate_at raw start close_char e))"


text \<open>
  The texts in which the properties of the direct parse are stated: \<open>str(n)\<close> for an
  integer \<open>n\<close> (decimal digits, most significant first, with a minus sign for a negative
  number), and the characters that a JSON string literal holds as they are (no quote, no
  backslash, no control character).
\<close>

function nat_digits :: "nat \<Rightarrow> str" where
  "nat_digits n =
     (if n < 10 then [0x30 + int n]
      else nat_digits (n div 10) @ [0x30 + int (n mod 10)])"
  by pat_completeness auto
termination
  by (relation "measure (\<lambda>n. n)") auto

declare nat_digits.simps [simp del]

definition py_str_int :: "int \<Rightarrow> str" where
  "py_str_int n = (if n < 0 then 0x2D # nat_digits (nat (- n)) else nat_digits (nat n))"

definition plain_char :: "codepoint \<Rightarrow> bool" where
  "plain_char c \<longleftrightarrow> 0x20 \<le> c \<and> c \<noteq> 0x22 \<and> c \<noteq> 0x5C"

section \<open>Model invocation\<close>

text \<open>
  \<open>call_bedrock(prompt)\<close> either raises (a transport or service error) or returns the
  generated text. Its outcome is an input of the model, of type \<open>error + str\<close>: \<open>Inl e\<close>
  stands for any exception raised before the text reaches \<open>safe_json_from_model\<close>.
\<close>

type_synonym outcome = "error + str"

section \<open>ENT.XP: role options and day simulation\<close>

definition fallback_roles :: "json list" where
  "fallback_roles =
    [JDict
       [(ascii ''role_name'', JString (ascii ''Assistant Creative Producer'')),
        (ascii ''one_sentence_hook'', JString (ascii ''You turn ideas and chaos into an actual show.'')),
        (ascii ''why_it_fits_this_person'', JString (ascii ''You enjoy planning, working with others, and being near the '' @
              ascii ''action.''))],
     JDict
       [(ascii ''role_name'', JString (ascii ''Community Content Curator'')),
        (ascii ''one_sentence_hook'', JString (ascii ''You find the best stories and help them shine.'')),
        (ascii ''why_it_fits_this_person'', JString (ascii ''You like social media, picking good content, and boosting others'' @
              [0x2019] @
              ascii '' voices.''))],
     JDict
       [(ascii ''role_name'', JString (ascii ''Studio Session Coordinator'')),
        (ascii ''one_sentence_hook'', JString (ascii ''You keep studio days running smooth and on time.'')),
        (ascii ''why_it_fits_this_person'', JString (ascii ''You'' @
              [0x2019] @
              ascii ''re organized and don'' @
              [0x2019] @
              ascii ''t mind juggling multiple tasks.''))]]"


text \<open>The body of the \<open>try\<close> block of \<open>ent_generate_role_options_from_ai\<close>.\<close>

definition roles_try :: "outcome \<Rightarrow> error + json list" where
  "roles_try response =
     (case response of
        Inl e \<Rightarrow> Inl e
      | Inr raw \<Rightarrow>
          (case safe_json_from_model raw of
             Inl e \<Rightarrow> Inl e
           | Inr roles \<Rightarrow>
               (case roles of
                  JList (r # rs) \<Rightarrow> Inr (r # rs)
                | _ \<Rightarrow> Inl (ValueError ''Parsed roles list is empty.''))))"

definition ent_generate_role_options_from_ai :: "str \<Rightarrow> outcome \<Rightarrow> json list" where
  "ent_generate_role_options_from_ai profile_text response =
     (case roles_try response of
        Inr roles \<Rightarrow> roles
      | Inl e \<Rightarrow> fallback_roles)"

definition fallback_simulation :: json where
  "fallback_simulation =
     JDict
       [(ascii ''scenes'', JList
          [JDict
            [(ascii ''time_of_day'', JString (ascii ''9:00 AM'')),
             (ascii ''short_title'', JString (ascii ''Getting started'')),
             (ascii ''narration'', JString (ascii ''You arrive, check messages, and review today'' @
                [0x27] @
                ascii ''s plan.''))],
           JDict
            [(ascii ''time_of_day'', JString (ascii ''1:00 PM'')),
             (ascii ''short_title'', JString (ascii ''In the middle of the action'')),
             (ascii ''narration'', JString (ascii ''You support the team during a busy part of the day, keeping '' @
                ascii ''things organized.''))],
           JDict
            [(ascii ''time_of_day'', JString (ascii ''5:00 PM'')),
             (ascii ''short_title'', JString (ascii ''Wrap up and reflect'')),
             (ascii ''narration'', JString (ascii ''You wrap up, note what went well, and think about how you can '' @
                ascii ''grow in this role.''))]]),
        (ascii ''key_tasks'', JList
          [JString (ascii ''Support more senior teammates with planning and coordination.''),
           JString (ascii ''Communicate clearly with people in different roles.''),
           JString (ascii ''Stay flexible when plans change.'')]),
        (ascii ''key_challenges'', JList
          [JString (ascii ''Balancing multiple tasks at once.''),
           JString (ascii ''Handling last-minute changes calmly.''),
           JString (ascii ''Learning the tools and workflows used by the team.'')]),
        (ascii ''growth_path'', JList
          [JString (ascii ''Year 1: Learn the basics and find your strengths.''),
           JString (ascii ''Year 3: Take ownership of small projects or parts of a show.''),
           JString (ascii ''Year 5: Lead bigger projects and mentor newer teammates.'')])]"


text \<open>The body of the \<open>try\<close> block of \<open>ent_generate_day_simulation\<close>.\<close>

definition simulation_try :: "outcome \<Rightarrow> error + json" where
  "simulation_try response =
     (case response of
        Inl e \<Rightarrow> Inl e
      | Inr raw \<Rightarrow>
          (case safe_json_from_model raw of
             Inl e \<Rightarrow> Inl e
           | Inr parsed \<Rightarrow>
               (let sim = (case parsed of
                             JList xs \<Rightarrow> JDict [(ascii ''scenes'', JList xs)]
                           | _ \<Rightarrow> parsed)
                in case sim of
                     JDict d \<Rightarrow> Inr (JDict d)
                   | _ \<Rightarrow> Inl (ValueError ''Simulation JSON is not an object or list.''))))"

definition ent_generate_day_simulation :: "json \<Rightarrow> json \<Rightarrow> outcome \<Rightarrow> json" where
  "ent_generate_day_simulation role_name fit_reason response =
     (case simulation_try response of
        Inr sim \<Rightarrow> sim
      | Inl e \<Rightarrow> fallback_simulation)"

section \<open>ENT.XP: the session and its views\<close>

text \<open>
  The per-session state of ENT.XP, as kept in \<open>st.session_state\<close>. \<open>requests\<close> is not a
  field of the program: it records, in order, the prompts sent through \<open>call_bedrock\<close>,
  so that a property can say whether the model was invoked. The text generation service
  is an input: \<open>bedrock i\<close> is the outcome of the \<open>i\<close>-th invocation of the session.
\<close>

datatype request = RolesRequest str | SimulationRequest json json

record session =
  ent_stage :: string
  ent_role_options :: "json list"
  ent_selected_role :: "json option"
  ent_simulations :: "(json \<times> json) list"
  requests :: "request list"

type_synonym bedrock = "nat \<Rightarrow> outcome"

definition initial_session :: session where
  "initial_session =
     \<lparr>ent_stage = ''landing'', ent_role_options = [], ent_selected_role = None,
      ent_simulations = [], requests = []\<rparr>"

definition call_bedrock :: "bedrock \<Rightarrow> request \<Rightarrow> session \<Rightarrow> outcome \<times> session" where
  "call_bedrock b r s = (b (length (requests s)), s\<lparr>requests := requests s @ [r]\<rparr>)"

definition ent_go_to :: "string \<Rightarrow> session \<Rightarrow> session" where
  "ent_go_to stage s = s\<lparr>ent_stage := stage\<rparr>"

text \<open>
  \<open>obj[key]\<close> with a string key: a dict answers or raises \<open>KeyError\<close>, every other JSON
  value raises \<open>TypeError\<close>. A list or a dict is not hashable and cannot be looked up in
  a dict. (Python identifies the keys \<open>1\<close>, \<open>1.0\<close> and \<open>True\<close>; the model does not, and
  the properties below are about string keys.)
\<close>

fun subscript :: "json \<Rightarrow> str \<Rightarrow> error + json" where
  "subscript (JDict d) k = (case dict_get d k of Some v \<Rightarrow> Inr v | None \<Rightarrow> Inl KeyError)"
| "subscript _ k = Inl TypeError"

fun hashable :: "json \<Rightarrow> bool" where
  "hashable (JList xs) = False"
| "hashable (JDict d) = False"
| "hashable _ = True"

text \<open>
  One run of the script is triggered by one user action; \<open>click\<close> says which button, if
  any, answers \<open>True\<close> in that run. A button that the run does not reach has no effect.
\<close>

datatype click =
    NoClick
  | StartJourney
  | QuizBack
  | ShowRoles str
  | RolesBackQuiz
  | TryRole nat
  | RolesBackQuiz2
  | SimBackRoles
  | TryAnotherRole
  | StartOver

definition ent_show_landing :: "click \<Rightarrow> session \<Rightarrow> session" where
  "ent_show_landing c s = (if c = StartJourney then ent_go_to ''quiz'' s else s)"

text \<open>\<open>ShowRoles profile\<close> carries the profile text composed from the form.\<close>

definition ent_show_quiz :: "bedrock \<Rightarrow> click \<Rightarrow> session \<Rightarrow> session" where
  "ent_show_quiz b c s =
     (case c of
        QuizBack \<Rightarrow> ent_go_to ''landing'' s
      | ShowRoles profile \<Rightarrow>
          (let (response, s1) = call_bedrock b (RolesRequest profile) s;
               roles = ent_generate_role_options_from_ai profile response
           in ent_go_to ''roles'' (s1\<lparr>ent_role_options := roles\<rparr>))
      | _ \<Rightarrow> s)"

text \<open>
  The loop of \<open>ent_show_roles\<close> over the role cards, numbered from 1. The second
  component of the result says that the run ended in \<open>st.experimental_rerun()\<close>.
\<close>

fun roles_loop :: "nat \<Rightarrow> json list \<Rightarrow> click \<Rightarrow> session \<Rightarrow> error + (session \<times> bool)" where
  "roles_loop idx [] c s = Inr (s, False)"
| "roles_loop idx (role # roles) c s =
     (case subscript role (ascii ''role_name'') of
        Inl e \<Rightarrow> Inl e
      | Inr role_name \<Rightarrow>
          (case subscript role (ascii ''one_sentence_hook'') of
             Inl e \<Rightarrow> Inl e
           | Inr hook \<Rightarrow>
               (case subscript role (ascii ''why_it_fits_this_person'') of
                  Inl e \<Rightarrow> Inl e
                | Inr why_fit \<Rightarrow>
                    (case role_name of
                       JString name \<Rightarrow>
                         if c = TryRole idx
                         then Inr (ent_go_to ''simulation'' (s\<lparr>ent_selected_role := Some role\<rparr>), True)
                         else roles_loop (idx + 1) roles c s
                     | _ \<Rightarrow> Inl AttributeError))))"

definition ent_show_roles :: "click \<Rightarrow> session \<Rightarrow> error + session" where
  "ent_show_roles c s =
     (let roles = ent_role_options s
      in if length roles = 0 then Inr (if c = RolesBackQuiz then ent_go_to ''quiz'' s else s)
         else
           (case roles_loop 1 roles c s of
              Inl e \<Rightarrow> Inl e
            | Inr (s1, rerun) \<Rightarrow>
                Inr (if rerun then s1
                     else if c = RolesBackQuiz2 then ent_go_to ''quiz'' s1
                     else s1)))"

text \<open>
  The statements of \<open>ent_show_simulation\<close> between the cache lookup and the two buttons
  render the simulation. What they write to the page is not part of the state and is
  not modelled; whether they raise is, since a run that raises there never reaches the
  buttons. The helpers below are the Python operations these statements apply to the
  values found in \<open>sim\<close>, which the model's answer decides.

  \<open>obj.get(key, default)\<close>: only a dict has the method.
\<close>

fun py_get :: "json \<Rightarrow> str \<Rightarrow> json \<Rightarrow> error + json" where
  "py_get (JDict d) k dflt = Inr (case dict_get d k of Some v \<Rightarrow> v | None \<Rightarrow> dflt)"
| "py_get _ k dflt = Inl AttributeError"

text \<open>
  Whether the float written as the literal \<open>t\<close> is zero: its digits are all zero, or its
  value \<open>m / 10 ^ k\<close> is at most \<open>2 ^ -1075\<close>, half of the smallest positive double, so
  that the conversion rounds it to zero. \<open>NaN\<close> and the infinities are not zero.
\<close>

definition float_is_zero :: "str \<Rightarrow> bool" where
  "float_is_zero t =
     (let body = (case t of c # cs \<Rightarrow> if c = 0x2D then cs else t | [] \<Rightarrow> t);
          ipart = takeWhile is_digit body;
          r1 = dropWhile is_digit body;
          frac = (case r1 of p # fs \<Rightarrow> if p = 0x2E then takeWhile is_digit fs else []
                           | [] \<Rightarrow> []);
          r2 = (case r1 of p # fs \<Rightarrow> if p = 0x2E then dropWhile is_digit fs else r1
                         | [] \<Rightarrow> []);
          e10 = (case r2 of
                   e # es \<Rightarrow>
                     if e = 0x65 \<or> e = 0x45 then
                       (case es of
                          g # gs \<Rightarrow> if g = 0x2D then - digits_value gs
                                    else if g = 0x2B then digits_value gs
                                    else digits_value es
                        | [] \<Rightarrow> 0)
                     else 0
                 | [] \<Rightarrow> 0);
          m = digits_value (ipart @ frac);
          k = int (length frac) - e10
      in ipart \<noteq> [] \<and> (m = 0 \<or> (0 < k \<and> m * 2 ^ 1075 \<le> 10 ^ nat k)))"

text \<open>The truth value of a JSON value, as \<open>if x:\<close> and \<open>not x\<close> take it.\<close>

fun py_bool :: "json \<Rightarrow> bool" where
  "py_bool JNull = False"
| "py_bool (JBool b) = b"
| "py_bool (JInt n) = (n \<noteq> 0)"
| "py_bool (JFloat t) = (\<not> float_is_zero t)"
| "py_bool (JString x) = (x \<noteq> [])"
| "py_bool (JList xs) = (xs \<noteq> [])"
| "py_bool (JDict d) = (d \<noteq> [])"

text \<open>
  The items that a \<open>for\<close> loop or \<open>join\<close> draws from a value: the elements of a list,
  the characters of a string, the keys of a dict; nothing else is iterable.
\<close>

fun py_iter :: "json \<Rightarrow> error + json list" where
  "py_iter (JList xs) = Inr xs"
| "py_iter (JString x) = Inr (map (\<lambda>c. JString [c]) x)"
| "py_iter (JDict d) = Inr (map (\<lambda>(k, v). JString k) d)"
| "py_iter _ = Inl TypeError"

text \<open>
  The loop over the scenes: each \<open>scene\<close> answers three \<open>get\<close> calls; the values found
  are formatted into the card, which any value allows.
\<close>

fun scene_cards :: "json list \<Rightarrow> error + unit" where
  "scene_cards [] = Inr ()"
| "scene_cards (scene # scenes) =
     (case py_get scene (ascii ''time_of_day'') (JString []) of
        Inl e \<Rightarrow> Inl e
      | Inr time_of_day \<Rightarrow>
          (case py_get scene (ascii ''short_title'') (JString []) of
             Inl e \<Rightarrow> Inl e
           | Inr title \<Rightarrow>
               (case py_get scene (ascii ''narration'') (JString []) of
                  Inl e \<Rightarrow> Inl e
                | Inr narration \<Rightarrow> scene_cards scenes)))"

text \<open>
  \<open>x[:3]\<close>: a list and a string can be sliced. A dict raises \<open>TypeError\<close> (\<open>KeyError\<close>
  from Python 3.12 on, where a slice is hashable); the properties below do not depend on
  which.
\<close>

fun first3 :: "json \<Rightarrow> error + json" where
  "first3 (JList xs) = Inr (JList (take 3 xs))"
| "first3 (JString x) = Inr (JString (take 3 x))"
| "first3 _ = Inl TypeError"

text \<open>\<open>sep.join(items)\<close>: every item has to be a string.\<close>

fun join_strs :: "str \<Rightarrow> json list \<Rightarrow> error + str" where
  "join_strs sep [] = Inr []"
| "join_strs sep [JString a] = Inr a"
| "join_strs sep (JString a # x # xs) =
     (case join_strs sep (x # xs) of Inl e \<Rightarrow> Inl e | Inr t \<Rightarrow> Inr (a @ sep @ t))"
| "join_strs sep (y # xs) = Inl TypeError"

text \<open>\<open>"- " + "\n- ".join(x)\<close>, the bullet list passed to \<open>st.markdown\<close>.\<close>

definition bullet_list :: "json \<Rightarrow> error + str" where
  "bullet_list x =
     (case py_iter x of
        Inl e \<Rightarrow> Inl TypeError
      | Inr items \<Rightarrow>
          (case join_strs ([0x0A] @ ascii ''- '') items of
             Inl e \<Rightarrow> Inl e
           | Inr t \<Rightarrow> Inr (ascii ''- '' @ t)))"

definition render_simulation :: "json \<Rightarrow> error + unit" where
  "render_simulation sim =
     (case py_get sim (ascii ''scenes'') (JList []) of
        Inl e \<Rightarrow> Inl e
      | Inr scenes \<Rightarrow>
     (case py_get sim (ascii ''key_tasks'') (JList []) of
        Inl e \<Rightarrow> Inl e
      | Inr key_tasks \<Rightarrow>
     (case py_get sim (ascii ''key_challenges'') (JList []) of
        Inl e \<Rightarrow> Inl e
      | Inr key_challenges \<Rightarrow>
     (case py_get sim (ascii ''growth_path'') (JList []) of
        Inl e \<Rightarrow> Inl e
      | Inr growth_path \<Rightarrow>
     (case (if \<not> py_bool scenes then Inr ()
            else (case py_iter scenes of Inl e \<Rightarrow> Inl e | Inr xs \<Rightarrow> scene_cards xs)) of
        Inl e \<Rightarrow> Inl e
      | Inr timeline \<Rightarrow>
     (case (if py_bool key_tasks
            then (case first3 key_tasks of Inl e \<Rightarrow> Inl e | Inr bullets \<Rightarrow> bullet_list bullets)
            else Inr []) of
        Inl e \<Rightarrow> Inl e
      | Inr love \<Rightarrow>
     (case (if py_bool key_challenges
            then (case first3 key_challenges of
                    Inl e \<Rightarrow> Inl e
                  | Inr bullets \<Rightarrow> bullet_list bullets)
            else Inr []) of
        Inl e \<Rightarrow> Inl e
      | Inr skills \<Rightarrow>
     (case (if py_bool growth_path then bullet_list growth_path else Inr []) of
        Inl e \<Rightarrow> Inl e
      | Inr growth \<Rightarrow> Inr ()))))))))"

text \<open>The two buttons at the end of \<open>ent_show_simulation\<close>.\<close>

definition simulation_buttons :: "click \<Rightarrow> session \<Rightarrow> session" where
  "simulation_buttons c s =
     (if c = TryAnotherRole then ent_go_to ''roles'' s
      else if c = StartOver then
        ent_go_to ''landing''
          (s\<lparr>ent_role_options := [], ent_selected_role := None, ent_simulations := []\<rparr>)
      else s)"

text \<open>
  \<open>ent_show_simulation\<close>. The first component of the result is the exception that ended
  the run, or the simulation that the view rendered (none when no role is selected); the
  second is the state that the run leaves behind. An exception of the rendering is raised
  after the generated simulation was stored.
\<close>

definition ent_show_simulation ::
  "bedrock \<Rightarrow> click \<Rightarrow> session \<Rightarrow> (error + json option) \<times> session" where
  "ent_show_simulation b c s =
     (case ent_selected_role s of
        None \<Rightarrow> (Inr None, if c = SimBackRoles then ent_go_to ''roles'' s else s)
      | Some role \<Rightarrow>
          (case subscript role (ascii ''role_name'') of
             Inl e \<Rightarrow> (Inl e, s)
           | Inr role_name \<Rightarrow>
               (case subscript role (ascii ''one_sentence_hook'') of
                  Inl e \<Rightarrow> (Inl e, s)
                | Inr hook \<Rightarrow>
                    (case subscript role (ascii ''why_it_fits_this_person'') of
                       Inl e \<Rightarrow> (Inl e, s)
                     | Inr fit_reason \<Rightarrow>
                         if \<not> hashable role_name then (Inl TypeError, s)
                         else
                           (let (sim, s1) =
                                  (case dict_get (ent_simulations s) role_name of
                                     None \<Rightarrow>
                                       (let (response, s0) =
                                              call_bedrock b (SimulationRequest role_name fit_reason) s;
                                            sim = ent_generate_day_simulation role_name fit_reason response
                                        in (sim, s0\<lparr>ent_simulations :=
                                                      dict_set role_name sim (ent_simulations s0)\<rparr>))
                                   | Some sim \<Rightarrow> (sim, s))
                            in case render_simulation sim of
                                 Inl e \<Rightarrow> (Inl e, s1)
                               | Inr page \<Rightarrow> (Inr (Some sim), simulation_buttons c s1))))))"

text \<open>
  \<open>ent_main\<close>: the exception that ended the run, if any, and the state after the run.
\<close>

definition ent_main :: "bedrock \<Rightarrow> click \<Rightarrow> session \<Rightarrow> error option \<times> session" where
  "ent_main b c s =
     (let stage = ent_stage s
      in if stage = ''landing'' then (None, ent_show_landing c s)
         else if stage = ''quiz'' then (None, ent_show_quiz b c s)
         else if stage = ''roles'' then
           (case ent_show_roles c s of
              Inl e \<Rightarrow> (Some e, s)
            | Inr s1 \<Rightarrow> (None, s1))
         else if stage = ''simulation'' then
           (case ent_show_simulation b c s of
              (Inl e, s1) \<Rightarrow> (Some e, s1)
            | (Inr shown, s1) \<Rightarrow> (None, s1))
         else (None, ent_show_landing c s))"

text \<open>
  A session is a sequence of runs; each run starts from the state that the run before
  it left behind, whether that run completed or raised.
\<close>

fun run_session :: "bedrock \<Rightarrow> click list \<Rightarrow> session \<Rightarrow> session" where
  "run_session b [] s = s"
| "run_session b (c # cs) s = run_session b cs (snd (ent_main b c s))"

text \<open>How many simulations were requested from the model for one role name.\<close>

fun is_simulation_request :: "json \<Rightarrow> request \<Rightarrow> bool" where
  "is_simulation_request n (SimulationRequest k f) = (k = n)"
| "is_simulation_request n (RolesRequest p) = False"

definition simulation_requests :: "json \<Rightarrow> session \<Rightarrow> nat" where
  "simulation_requests n s = length (filter (is_simulation_request n) (requests s))"

text \<open>
  A counter for the proof of memoisation: the simulations requested so far for a role
  name, plus one while that name has no entry in the cache. No run other than
  ``start over'' makes it grow.
\<close>

definition pending :: "json \<Rightarrow> session \<Rightarrow> nat" where
  "pending n s =
     simulation_requests n s + (if dict_get (ent_simulations s) n = None then 1 else 0)"

text \<open>A field of a role option that is present, a string, and not empty.\<close>

definition field_nonempty :: "json \<Rightarrow> str \<Rightarrow> bool" where
  "field_nonempty role k =
     (case subscript role k of
        Inr (JString t) \<Rightarrow> t \<noteq> []
      | _ \<Rightarrow> False)"

section \<open>Spark Discovery Hub: the Identity Lab\<close>

text \<open>
  The input of \<open>call_identity_ai\<close>: the quiz answers and the slider values. The sliders
  are integers (the form produces integers from 0 to 10); \<open>sliders = None\<close> is a
  dictionary without the \<open>sliders\<close> entry.
\<close>

record identity_data =
  answers :: "(str \<times> str) list"
  sliders :: "(str \<times> int) list option"

text \<open>\<open>identity_data.get("sliders", {}).get(key, 5)\<close>.\<close>

definition sliders_get :: "identity_data \<Rightarrow> str \<Rightarrow> int" where
  "sliders_get identity key =
     (case dict_get (case sliders identity of None \<Rightarrow> [] | Some sl \<Rightarrow> sl) key of
        None \<Rightarrow> 5
      | Some v \<Rightarrow> v)"

text \<open>The body of the \<open>try\<close> block of \<open>call_identity_ai\<close>.\<close>

definition identity_try :: "outcome \<Rightarrow> error + json" where
  "identity_try response =
     (case response of
        Inl e \<Rightarrow> Inl e
      | Inr raw \<Rightarrow>
          (case safe_json_from_model raw of
             Inl e \<Rightarrow> Inl e
           | Inr data \<Rightarrow>
               (case data of
                  JDict d \<Rightarrow> Inr (JDict d)
                | _ \<Rightarrow> Inl (ValueError ''Identity AI output is not a JSON object.''))))"

definition env_summary_base :: str where
  "env_summary_base =
     (ascii ''You'' @
     [0x2019] @
     ascii ''d likely do well in a space that gives you room to learn, experiment, '' @
     ascii ''and contribute without all the pressure on you at once.'')"

definition team_sentence :: str where
  "team_sentence =
     (ascii '' You seem to recharge around people and might enjoy small, tight-knit '' @
     ascii ''creative teams.'')"

definition quiet_sentence :: str where
  "quiet_sentence =
     (ascii '' You might prefer roles where you can focus quietly and then '' @
     ascii ''share your work.'')"

text \<open>The \<open>except\<close> branch of \<open>call_identity_ai\<close>.\<close>

definition identity_fallback :: "identity_data \<Rightarrow> json" where
  "identity_fallback identity =
     (let chaos_val = sliders_get identity (ascii ''chaos_structure'');
          solo_team = sliders_get identity (ascii ''solo_team'');
          fallback_archetype =
            [(ascii ''name'', JString (ascii ''Emerging Creator'')),
             (ascii ''tagline'', JString (ascii ''You'' @
                [0x2019] @
                ascii ''re still exploring, but your creative spark is real.'')),
             (ascii ''description'', JString (ascii ''Based on your answers, you enjoy playing with ideas and noticing '' @
                ascii ''details in your own way. This archetype means you don'' @
                [0x2019] @
                ascii ''t have to have it all figured out yet '' @
                [0x2014] @
                ascii '' you'' @
                [0x2019] @
                ascii ''re in the discovery phase, which is powerful.''))];
          fallback_archetype =
            (if chaos_val \<ge> 7 then
               dict_set (ascii ''tagline'') (JString (ascii ''You like energy, mood, and letting things flow.''))
                 (dict_set (ascii ''name'') (JString (ascii ''Vibe Curator in Progress''))
                    fallback_archetype)
             else if chaos_val \<le> 3 then
               dict_set (ascii ''tagline'') (JString (ascii ''You like plans, structure, and knowing the why behind things.''))
                 (dict_set (ascii ''name'') (JString (ascii ''Vision Architect in Progress''))
                    fallback_archetype)
             else fallback_archetype);
          env_summary = env_summary_base;
          env_summary =
            (if solo_team \<ge> 7 then env_summary @ team_sentence
             else if solo_team \<le> 3 then env_summary @ quiet_sentence
             else env_summary)
      in JDict
           [(ascii ''spark_archetypes'', JList [JDict fallback_archetype]),
            (ascii ''creative_environment'',
               JDict
                 [(ascii ''summary'', JString env_summary),
                  (ascii ''example_spaces'',
                     JList
                       [JString (ascii ''A small content studio where you can learn from others''),
                        JString (ascii ''A quiet edit bay or creator corner where you can focus'')])]),
            (ascii ''suggested_roles'',
               JList
                 [JDict
                    [(ascii ''role_name'', JString (ascii ''Content Assistant / Editor-in-training'')),
                     (ascii ''why_it_fits'', JString (ascii ''You can experiment, learn tools, and slowly take on more responsibility '' @
                        ascii ''without needing to be perfect on day one.''))],
                  JDict
                    [(ascii ''role_name'', JString (ascii ''Production Helper on small shoots'')),
                     (ascii ''why_it_fits'', JString (ascii ''You'' @
                        [0x2019] @
                        ascii ''ll see many parts of the process and figure out what you like '' @
                        ascii ''best.''))]])])"

definition call_identity_ai :: "identity_data \<Rightarrow> outcome \<Rightarrow> json" where
  "call_identity_ai identity response =
     (case identity_try response of
        Inr data \<Rightarrow> data
      | Inl e \<Rightarrow> identity_fallback identity)"

section \<open>Spark Discovery Hub: the Confidence Lab\<close>

record conf_data =
  weaknesses :: "str list"
  barriers :: "str list"
  extra_barrier :: "str option"

text \<open>The body of the \<open>try\<close> block of \<open>call_confidence_ai\<close>.\<close>

definition confidence_try :: "outcome \<Rightarrow> error + json" where
  "confidence_try response =
     (case response of
        Inl e \<Rightarrow> Inl e
      | Inr raw \<Rightarrow>
          (case safe_json_from_model raw of
             Inl e \<Rightarrow> Inl e
           | Inr data \<Rightarrow>
               (case data of
                  JDict d \<Rightarrow> Inr (JDict d)
                | _ \<Rightarrow> Inl (ValueError ''Confidence AI output is not a JSON object.''))))"

text \<open>
  The \<open>except\<close> branch. \<open>str.lower\<close> follows the Unicode case tables, which are not
  reproduced: it is the parameter \<open>lower\<close>.
\<close>

definition reframe :: "(str \<Rightarrow> str) \<Rightarrow> str \<Rightarrow> json" where
  "reframe lower w =
     (let (strength, roles) =
            (if py_contains (ascii ''shy'') (lower w) then
               ((ascii ''You'' @
                [0x2019] @
                ascii ''re observant and good at listening, which is powerful in backstage '' @
                ascii ''and editing roles.''),
                JList [JString (ascii ''Video editor''), JString (ascii ''Continuity checker''), JString (ascii ''Researcher'')])
             else if py_contains (ascii ''overthink'') (lower w) then
               ((ascii ''You think things through, which helps with planning and quality '' @
                ascii ''control.''),
                JList [JString (ascii ''Assistant producer''), JString (ascii ''Script reviewer''), JString (ascii ''Social media planner'')])
             else
               ((ascii ''You care deeply and notice things others might miss.''),
                JList [JString (ascii ''Content editor''), JString (ascii ''Research assistant for shows''), JString (ascii ''Behind-the-scenes coordinator'')]))
      in JDict
           [(ascii ''original'', JString w),
            (ascii ''strength'', JString strength),
            (ascii ''example_roles'', roles),
            (ascii ''encouragement'', JString (ascii ''Your way of being has value '' @
                    [0x2014] @
                    ascii '' you don'' @
                    [0x2019] @
                    ascii ''t need to become someone else to contribute creatively.''))])"

definition action_plan_entry :: "str \<Rightarrow> json" where
  "action_plan_entry b =
     JDict
       [(ascii ''barrier'', JString b),
        (ascii ''actions'',
           JList
             [JString (ascii ''Write down one tiny creative action you can do in 10 minutes '' @
                  ascii ''this week.''),
              JString (ascii ''Find one free online resource (YouTube, TikTok, etc.) that teaches '' @
                  ascii ''a skill you care about.'')])]"

definition confidence_fallback :: "(str \<Rightarrow> str) \<Rightarrow> conf_data \<Rightarrow> json" where
  "confidence_fallback lower conf =
     (let reframes = map (reframe lower) (weaknesses conf);
          all_barriers =
            barriers conf @
            (case extra_barrier conf of
               None \<Rightarrow> []
             | Some extra \<Rightarrow> if extra \<noteq> [] then [extra] else []);
          action_plan = map action_plan_entry all_barriers
      in JDict
           [(ascii ''weakness_reframes'', JList reframes),
            (ascii ''barrier_action_plan'', JList action_plan),
            (ascii ''general_boost'', JString (ascii ''Even if things feel slow or blocked, every tiny experiment counts. '' @
                ascii ''You'' @
                [0x2019] @
                ascii ''re not behind '' @
                [0x2014] @
                ascii '' you'' @
                [0x2019] @
                ascii ''re just starting.''))])"

definition call_confidence_ai :: "(str \<Rightarrow> str) \<Rightarrow> conf_data \<Rightarrow> outcome \<Rightarrow> json" where
  "call_confidence_ai lower conf response =
     (case confidence_try response of
        Inr data \<Rightarrow> data
      | Inl e \<Rightarrow> confidence_fallback lower conf)"

section \<open>Spark Discovery Hub: session state and the two submit buttons\<close>

record spark_session =
  identity_raw :: "identity_data option"
  identity_result :: "json option"
  confidence_raw :: "conf_data option"
  confidence_result :: "json option"

datatype notice = Warning str | Success str

text \<open>
  The body of \<open>if st.button("Reveal My Spark Identity")\<close>: the six answers, the six
  slider values, and the outcome of the model call made inside \<open>call_identity_ai\<close>.
\<close>

definition id_reveal :: "str list \<Rightarrow> int list \<Rightarrow> outcome \<Rightarrow> spark_session \<Rightarrow> notice list \<times> spark_session" where
  "id_reveal qs cs response s =
     (let identity =
            \<lparr>answers = zip [ascii ''q1'', ascii ''q2'', ascii ''q3'', ascii ''q4'', ascii ''q5'',
                            ascii ''q6''] qs,
             sliders = Some (zip [ascii ''chaos_structure'', ascii ''solo_team'',
                                  ascii ''expression_observation'', ascii ''logic_emotion'',
                                  ascii ''people_backstage'', ascii ''bigpicture_detail''] cs)\<rparr>;
          s1 = s\<lparr>identity_raw := Some identity\<rparr>;
          ai_result = call_identity_ai identity response
      in ([Success (ascii ''Spark Identity generated! Scroll down to see your results.'')],
          s1\<lparr>identity_result := Some ai_result\<rparr>))"

definition confidence_warning :: str where
  "confidence_warning =
     (ascii ''Share at least one weakness or one barrier so we can support '' @
     ascii ''you.'')"

text \<open>
  The body of \<open>if st.button("Boost My Spark")\<close>. The second component of the result
  counts the calls of \<open>call_confidence_ai\<close> made by the run.
\<close>

definition conf_boost ::
  "(str \<Rightarrow> str) \<Rightarrow> outcome \<Rightarrow> str \<Rightarrow> str list \<Rightarrow> str \<Rightarrow> spark_session
     \<Rightarrow> notice list \<times> nat \<times> spark_session" where
  "conf_boost lower response weaknesses_text barriers_selected extra_barrier_text s =
     (let weakness_list =
            map py_strip (filter (\<lambda>w. py_strip w \<noteq> []) (py_split [0x0A] weaknesses_text));
          conf_raw =
            \<lparr>weaknesses = weakness_list, barriers = barriers_selected,
             extra_barrier = (if py_strip extra_barrier_text \<noteq> []
                              then Some (py_strip extra_barrier_text) else None)\<rparr>;
          s1 = s\<lparr>confidence_raw := Some conf_raw\<rparr>
      in if weakness_list = [] \<and> barriers_selected = [] \<and> py_strip extra_barrier_text = []
         then ([Warning confidence_warning], 0, s1)
         else
           (let ai_result = call_confidence_ai lower conf_raw response
            in ([Success ((ascii ''Spark Confidence boost ready! Scroll down to see your strengths '' @
                    ascii ''and action plan.''))],
                1, s1\<lparr>confidence_result := Some ai_result\<rparr>)))"

section \<open>The voice pipeline module\<close>

text \<open>
  The statements that the module \<open>voice_pipeline\<close> executes when it is imported, in
  order: imports, the three configuration assignments, the four client constructions
  and the function definitions. A namespace maps a name to its value; a name that is
  looked up and is not bound raises \<open>NameError\<close>. The namespace in which the module
  starts holds the built-in names.
\<close>

datatype pyval = Module string | StrVal string | Client string pyval | Function string

type_synonym namespace = "string \<rightharpoonup> pyval"

datatype stmt =
    Import string
  | FromImport string string
  | AssignStr string string
  | AssignClient string string string
  | Def string

text \<open>The name a statement binds.\<close>

fun binds :: "stmt \<Rightarrow> string" where
  "binds (Import m) = m"
| "binds (FromImport m n) = n"
| "binds (AssignStr x v) = x"
| "binds (AssignClient x service region_name) = x"
| "binds (Def f) = f"

text \<open>
  \<open>AssignClient x service r\<close> is \<open>x = boto3.client(service, region_name=r)\<close>: the
  name \<open>boto3\<close> is looked up, then the name \<open>r\<close>.
\<close>

fun exec :: "stmt \<Rightarrow> namespace \<Rightarrow> error + namespace" where
  "exec (Import m) g = Inr (g(m \<mapsto> Module m))"
| "exec (FromImport m n) g = Inr (g(n \<mapsto> Module n))"
| "exec (AssignStr x v) g = Inr (g(x \<mapsto> StrVal v))"
| "exec (AssignClient x service region_name) g =
     (case g ''boto3'' of
        None \<Rightarrow> Inl (NameError ''boto3'')
      | Some b \<Rightarrow>
          (case g region_name of
             None \<Rightarrow> Inl (NameError region_name)
           | Some region \<Rightarrow> Inr (g(x \<mapsto> Client service region))))"
| "exec (Def f) g = Inr (g(f \<mapsto> Function f))"

fun exec_all :: "stmt list \<Rightarrow> namespace \<Rightarrow> error + namespace" where
  "exec_all [] g = Inr g"
| "exec_all (st # sts) g =
     (case exec st g of
        Inl e \<Rightarrow> Inl e
      | Inr g1 \<Rightarrow> exec_all sts g1)"

definition voice_pipeline_module :: "stmt list" where
  "voice_pipeline_module =
     [Import ''os'', Import ''uuid'', Import ''wave'', Import ''json'', Import ''time'',
      FromImport ''typing'' ''Tuple'', Import ''boto3'',
      AssignStr ''S3_BUCKET'' ''<YOUR_BUCKET_NAME>'',
      AssignStr ''REGION'' ''<YOUR_AWS_REGION>'',
      AssignStr ''BEDROCK_REGION'' ''us-east-2'',
      AssignClient ''transcribe'' ''transcribe'' ''AWS_REGION'',
      AssignClient ''polly'' ''polly'' ''AWS_REGION'',
      AssignClient ''s3'' ''s3'' ''AWS_REGION'',
      AssignClient ''bedrock_agent'' ''bedrock-agent-runtime'' ''BEDROCK_REGION'',
      Def ''get_wav_duration_seconds'', Def ''upload_to_s3'', Def ''transcribe_audio'',
      Def ''call_master_agent'', Def ''synthesize_speech'', Def ''handle_voice_interaction'']"

section \<open>The voice pipeline: transcription\<close>

text \<open>
  What \<open>wave.open\<close> reads from the file: the frame count and the frame rate, or nothing
  when the header cannot be read. The duration is a Python float; it is modelled as a
  real number, and only its comparison with 0.5 is used.
\<close>

record wav_header =
  nframes :: nat
  framerate :: nat

definition get_wav_duration_seconds :: "wav_header option \<Rightarrow> error + real" where
  "get_wav_duration_seconds file =
     (case file of
        None \<Rightarrow> Inl WaveError
      | Some hdr \<Rightarrow>
          if framerate hdr = 0 then Inl ZeroDivisionError
          else Inr (real (nframes hdr) / real (framerate hdr)))"

definition too_short :: error where
  "too_short = ValueError ''Audio too short. Please record at least 1-2 seconds.''"

text \<open>The body of the \<open>try\<close> block at the head of \<open>transcribe_audio\<close>.\<close>

definition duration_try :: "wav_header option \<Rightarrow> error + real" where
  "duration_try file =
     (case get_wav_duration_seconds file of
        Inl e \<Rightarrow> Inl e
      | Inr duration \<Rightarrow> if duration < 0.5 then Inl too_short else Inr duration)"

text \<open>
  The \<open>try\<close> statement as a whole: \<open>except Exception\<close> catches whatever the body raised
  and sets \<open>duration = None\<close>; the result is the value of \<open>duration\<close> after it.
\<close>

definition duration_guard :: "wav_header option \<Rightarrow> real option" where
  "duration_guard file =
     (case duration_try file of
        Inl e \<Rightarrow> None
      | Inr duration \<Rightarrow> Some duration)"

text \<open>
  The services as inputs: the status answered by each successive
  \<open>get_transcription_job\<close>, and the text of the result object. The service calls
  themselves are taken to answer; the calls made are recorded in order.
\<close>

record transcribe_env =
  wav :: "wav_header option"
  job_statuses :: "string list"
  transcript_object :: str

datatype net_call = S3Upload | StartTranscriptionJob | GetTranscriptionJob | S3GetObject

text \<open>
  The polling loop: the number of polls made and the final status, or \<open>None\<close> when no
  answer is \<open>COMPLETED\<close> or \<open>FAILED\<close> (the loop has not ended).
\<close>

fun poll :: "string list \<Rightarrow> (nat \<times> string) option" where
  "poll [] = None"
| "poll (status # rest) =
     (if status = ''COMPLETED'' \<or> status = ''FAILED'' then Some (1, status)
      else (case poll rest of
              None \<Rightarrow> None
            | Some (k, final) \<Rightarrow> Some (Suc k, final)))"

text \<open>\<open>obj[0]\<close> and \<open>text.strip()\<close> on a JSON value.\<close>

fun index0 :: "json \<Rightarrow> error + json" where
  "index0 (JList (x # xs)) = Inr x"
| "index0 (JList []) = Inl IndexError"
| "index0 (JString (c # cs)) = Inr (JString [c])"
| "index0 (JString []) = Inl IndexError"
| "index0 (JDict d) = Inl KeyError"
| "index0 _ = Inl TypeError"

fun strip_method :: "json \<Rightarrow> error + str" where
  "strip_method (JString t) = Inr (py_strip t)"
| "strip_method _ = Inl AttributeError"

definition read_transcript :: "str \<Rightarrow> error + str" where
  "read_transcript body =
     (case json_loads body of
        None \<Rightarrow> Inl (ValueError ''JSONDecodeError'')
      | Some data \<Rightarrow>
          (case subscript data (ascii ''results'') of
             Inl e \<Rightarrow> Inl e
           | Inr results \<Rightarrow>
               (case subscript results (ascii ''transcripts'') of
                  Inl e \<Rightarrow> Inl e
                | Inr transcripts \<Rightarrow>
                    (case index0 transcripts of
                       Inl e \<Rightarrow> Inl e
                     | Inr first \<Rightarrow>
                         (case subscript first (ascii ''transcript'') of
                            Inl e \<Rightarrow> Inl e
                          | Inr text \<Rightarrow> strip_method text)))))"

text \<open>
  \<open>transcribe_audio\<close>: the service calls made, and the result (\<open>None\<close> while the polling
  loop has not ended). The value of \<open>duration\<close> is not used after the guard.
\<close>

definition transcribe_audio :: "transcribe_env \<Rightarrow> net_call list \<times> (error + str) option" where
  "transcribe_audio env =
     (let duration = duration_guard (wav env)
      in case poll (job_statuses env) of
           None \<Rightarrow>
             ([S3Upload, StartTranscriptionJob] @
                replicate (length (job_statuses env)) GetTranscriptionJob, None)
         | Some (k, status) \<Rightarrow>
             (let calls = [S3Upload, StartTranscriptionJob] @ replicate k GetTranscriptionJob
              in if status = ''FAILED''
                 then (calls, Some (Inl (RuntimeError ''Transcription failed'')))
                 else (calls @ [S3GetObject], Some (read_transcript (transcript_object env)))))"

section \<open>The voice pipeline: the agent dialogue\<close>

text \<open>
  \<open>bytes.decode("utf-8")\<close> in strict mode: shortest-form sequences only, no surrogates,
  nothing above U+10FFFF; anything else raises \<open>UnicodeDecodeError\<close>.
\<close>

type_synonym bytes = "8 word list"

definition is_cont :: "8 word \<Rightarrow> bool" where
  "is_cont b \<longleftrightarrow> 0x80 \<le> b \<and> b \<le> 0xBF"

definition cont_bits :: "8 word \<Rightarrow> int" where
  "cont_bits b = uint b - 0x80"

definition second_ok3 :: "8 word \<Rightarrow> 8 word \<Rightarrow> bool" where
  "second_ok3 b0 b1 \<longleftrightarrow>
     (if b0 = 0xE0 then 0xA0 \<le> b1 \<and> b1 \<le> 0xBF
      else if b0 = 0xED then 0x80 \<le> b1 \<and> b1 \<le> 0x9F
      else is_cont b1)"

definition second_ok4 :: "8 word \<Rightarrow> 8 word \<Rightarrow> bool" where
  "second_ok4 b0 b1 \<longleftrightarrow>
     (if b0 = 0xF0 then 0x90 \<le> b1 \<and> b1 \<le> 0xBF
      else if b0 = 0xF4 then 0x80 \<le> b1 \<and> b1 \<le> 0x8F
      else is_cont b1)"

definition cons_cp :: "codepoint \<Rightarrow> error + str \<Rightarrow> error + str" where
  "cons_cp c r = (case r of Inl e \<Rightarrow> Inl e | Inr t \<Rightarrow> Inr (c # t))"

fun utf8_decode :: "bytes \<Rightarrow> error + str" where
  "utf8_decode [] = Inr []"
| "utf8_decode (b0 # bs) =
     (if b0 < 0x80 then cons_cp (uint b0) (utf8_decode bs)
      else if 0xC2 \<le> b0 \<and> b0 \<le> 0xDF then
        (case bs of
           b1 # r \<Rightarrow>
             if is_cont b1
             then cons_cp ((uint b0 - 0xC0) * 64 + cont_bits b1) (utf8_decode r)
             else Inl UnicodeDecodeError
         | _ \<Rightarrow> Inl UnicodeDecodeError)
      else if 0xE0 \<le> b0 \<and> b0 \<le> 0xEF then
        (case bs of
           b1 # b2 # r \<Rightarrow>
             if second_ok3 b0 b1 \<and> is_cont b2
             then cons_cp (((uint b0 - 0xE0) * 64 + cont_bits b1) * 64 + cont_bits b2)
                    (utf8_decode r)
             else Inl UnicodeDecodeError
         | _ \<Rightarrow> Inl UnicodeDecodeError)
      else if 0xF0 \<le> b0 \<and> b0 \<le> 0xF4 then
        (case bs of
           b1 # b2 # b3 # r \<Rightarrow>
             if second_ok4 b0 b1 \<and> is_cont b2 \<and> is_cont b3
             then cons_cp ((((uint b0 - 0xF0) * 64 + cont_bits b1) * 64 + cont_bits b2) * 64
                             + cont_bits b3)
                    (utf8_decode r)
             else Inl UnicodeDecodeError
         | _ \<Rightarrow> Inl UnicodeDecodeError)
      else Inl UnicodeDecodeError)"

text \<open>
  An event of the completion stream: its \<open>chunk\<close> entry, if any, and in it the
  \<open>bytes\<close> entry, if any. An empty chunk dictionary and a chunk without \<open>bytes\<close> are
  both skipped, so both are \<open>Chunk None\<close>.
\<close>

datatype chunk = Chunk "bytes option"

datatype event = Event "chunk option"

text \<open>The loop over the events, with \<open>completion_text\<close> as accumulator.\<close>

fun collect :: "event list \<Rightarrow> str \<Rightarrow> error + str" where
  "collect [] completion_text = Inr completion_text"
| "collect (Event None # events) completion_text = collect events completion_text"
| "collect (Event (Some (Chunk None)) # events) completion_text =
     collect events completion_text"
| "collect (Event (Some (Chunk (Some bytes_data))) # events) completion_text =
     (if bytes_data = [] then collect events completion_text
      else (case utf8_decode bytes_data of
              Inl e \<Rightarrow> Inl e
            | Inr t \<Rightarrow> collect events (completion_text @ t)))"

text \<open>The bytes of the whole stream, chunk after chunk.\<close>

fun stream_bytes :: "event list \<Rightarrow> bytes" where
  "stream_bytes [] = []"
| "stream_bytes (Event None # events) = stream_bytes events"
| "stream_bytes (Event (Some (Chunk None)) # events) = stream_bytes events"
| "stream_bytes (Event (Some (Chunk (Some bytes_data))) # events) =
     bytes_data @ stream_bytes events"

definition didnt_catch :: str where
  "didnt_catch =
     (ascii ''I didn'' @
     [0x27] @
     ascii ''t catch that. Could you please repeat your answer?'')"

definition no_reply :: str where
  "no_reply =
     (ascii ''Sorry, I couldn'' @
     [0x27] @
     ascii ''t generate a reply this time.'')"

text \<open>
  The remote agent is an input: for a session identifier and an input text,
  \<open>invoke_agent\<close> raises or answers with a response, whose \<open>completion\<close> entry (absent:
  \<open>None\<close>) is the event stream. The first component of the result counts the
  invocations of the agent.
\<close>

type_synonym agent = "str \<Rightarrow> str \<Rightarrow> error + event list option"

definition call_master_agent :: "agent \<Rightarrow> str \<Rightarrow> str \<Rightarrow> nat \<times> (error + str)" where
  "call_master_agent invoke_agent user_text session_id =
     (if user_text = [] then (0, Inr didnt_catch)
      else
        (case invoke_agent session_id user_text of
           Inl e \<Rightarrow> (1, Inl e)
         | Inr response \<Rightarrow>
             (case collect (case response of None \<Rightarrow> [] | Some events \<Rightarrow> events) [] of
                Inl e \<Rightarrow> (1, Inl e)
              | Inr completion_text \<Rightarrow>
                  (1, Inr (if py_strip completion_text \<noteq> [] then py_strip completion_text
                           else no_reply)))))"

text \<open>
  Every chunk of the stream is by itself a well-formed UTF-8 text: no character is cut
  in two by the boundary between two chunks.
\<close>

fun chunks_decode :: "event list \<Rightarrow> bool" where
  "chunks_decode [] = True"
| "chunks_decode (Event None # events) = chunks_decode events"
| "chunks_decode (Event (Some (Chunk None)) # events) = chunks_decode events"
| "chunks_decode (Event (Some (Chunk (Some bytes_data))) # events) =
     (case utf8_decode bytes_data of
        Inl e \<Rightarrow> False
      | Inr t \<Rightarrow> chunks_decode events)"

section \<open>Properties of the structured-output recovery\<close>

lemma py_find_ge: "-1 \<le> py_find s c"
  by (induction s) (auto simp: Let_def)

lemma py_find_absent: "py_find s c = -1 \<longleftrightarrow> c \<notin> set s"
proof (induction s)
  case Nil
  show ?case by simp
next
  case (Cons x xs)
  have "-1 \<le> py_find xs c" by (rule py_find_ge)
  with Cons show ?case by (auto simp: Let_def)
qed

lemma py_find_first: "c \<in> set s \<Longrightarrow> first_index s c (nat (py_find s c))"
proof (induction s)
  case Nil
  then show ?case by simp
next
  case (Cons x xs)
  show ?case
  proof (cases "x = c")
    case True
    then show ?thesis by (simp add: first_index_def)
  next
    case False
    with Cons.prems have mem: "c \<in> set xs" by simp
    then have ih: "first_index xs c (nat (py_find xs c))" by (rule Cons.IH)
    from mem have ne: "py_find xs c \<noteq> -1" by (simp add: py_find_absent)
    have ge: "-1 \<le> py_find xs c" by (rule py_find_ge)
    from ne ge have nn: "0 \<le> py_find xs c" by arith
    then have eq: "nat (py_find xs c + 1) = Suc (nat (py_find xs c))" by arith
    from False ne have pf: "py_find (x # xs) c = py_find xs c + 1" by (simp add: Let_def)
    define n where "n = nat (py_find xs c)"
    from ih have n1: "n < length xs" and n2: "xs ! n = c" and n3: "\<And>j. j < n \<Longrightarrow> xs ! j \<noteq> c"
      by (auto simp: first_index_def n_def)
    have "\<And>j. j < Suc n \<Longrightarrow> (x # xs) ! j \<noteq> c"
    proof -
      fix j assume "j < Suc n"
      then show "(x # xs) ! j \<noteq> c"
        using False n3 by (cases j) auto
    qed
    with n1 n2 have "first_index (x # xs) c (Suc n)"
      by (auto simp: first_index_def)
    with pf eq show ?thesis by (simp add: n_def)
  qed
qed

lemma first_index_unique: "first_index s c i \<Longrightarrow> first_index s c j \<Longrightarrow> i = j"
  unfolding first_index_def by (metis lessThan_iff linorder_neqE_nat)

lemma first_index_mem: "first_index s c i \<Longrightarrow> c \<in> set s"
  unfolding first_index_def by (metis nth_mem)

lemma scan_ends_unfold:
  "scan_ends raw st c e =
     (if e < length raw then
        (if raw ! e = c \<and> json_loads (slice raw st (e + 1)) \<noteq> None
         then json_loads (slice raw st (e + 1))
         else scan_ends raw st c (e + 1))
      else None)"
proof (cases "json_loads (slice raw st (e + 1))")
  case None
  then show ?thesis by (subst scan_ends.simps) simp
next
  case (Some w)
  then show ?thesis by (subst scan_ends.simps) simp
qed

lemma scan_ends_Some:
  "scan_ends raw st c e = Some v \<longleftrightarrow>
     (\<exists>k. e \<le> k \<and> k < length raw \<and> raw ! k = c \<and> json_loads (slice raw st (k + 1)) = Some v \<and>
          (\<forall>j. e \<le> j \<and> j < k \<and> raw ! j = c \<longrightarrow> json_loads (slice raw st (j + 1)) = None))"
proof (induction "length raw - e" arbitrary: e)
  case 0
  then have "\<not> e < length raw" by simp
  then show ?case by (subst scan_ends_unfold) auto
next
  case (Suc m)
  then have inb: "e < length raw" by simp
  let ?R = "\<lambda>e. \<exists>k. e \<le> k \<and> k < length raw \<and> raw ! k = c \<and> json_loads (slice raw st (k + 1)) = Some v \<and>
          (\<forall>j. e \<le> j \<and> j < k \<and> raw ! j = c \<longrightarrow> json_loads (slice raw st (j + 1)) = None)"
  show ?case
  proof (cases "raw ! e = c \<and> json_loads (slice raw st (e + 1)) \<noteq> None")
    case True
    with inb have lhs: "scan_ends raw st c e = json_loads (slice raw st (e + 1))"
      using scan_ends_unfold[of raw st c e] by auto
    have "?R e \<longleftrightarrow> json_loads (slice raw st (e + 1)) = Some v"
    proof
      assume "?R e"
      then obtain k where k: "e \<le> k" "k < length raw" "raw ! k = c"
          "json_loads (slice raw st (k + 1)) = Some v"
          "\<forall>j. e \<le> j \<and> j < k \<and> raw ! j = c \<longrightarrow> json_loads (slice raw st (j + 1)) = None"
        by blast
      have "k = e"
      proof (rule ccontr)
        assume "k \<noteq> e"
        with k(1) have "e < k" by simp
        with k(5) True show False by auto
      qed
      with k(4) show "json_loads (slice raw st (e + 1)) = Some v" by simp
    next
      assume a: "json_loads (slice raw st (e + 1)) = Some v"
      have "e \<le> e \<and> e < length raw \<and> raw ! e = c \<and> json_loads (slice raw st (e + 1)) = Some v \<and>
          (\<forall>j. e \<le> j \<and> j < e \<and> raw ! j = c \<longrightarrow> json_loads (slice raw st (j + 1)) = None)"
        using a True inb by auto
      then show "?R e" by blast
    qed
    with lhs show ?thesis by simp
  next
    case False
    with inb have step: "scan_ends raw st c e = scan_ends raw st c (e + 1)"
      using scan_ends_unfold[of raw st c e] by auto
    from Suc.hyps(2) have "m = length raw - (e + 1)" by simp
    from Suc.hyps(1)[OF this] have ih: "scan_ends raw st c (e + 1) = Some v \<longleftrightarrow> ?R (e + 1)" .
    have "?R e \<longleftrightarrow> ?R (e + 1)"
    proof
      assume "?R e"
      then obtain k where k: "e \<le> k" "k < length raw" "raw ! k = c"
          "json_loads (slice raw st (k + 1)) = Some v"
          "\<forall>j. e \<le> j \<and> j < k \<and> raw ! j = c \<longrightarrow> json_loads (slice raw st (j + 1)) = None"
        by blast
      from k(3,4) False have "k \<noteq> e" by auto
      with k(1) have "e + 1 \<le> k" by simp
      moreover from k(5) have "\<forall>j. e + 1 \<le> j \<and> j < k \<and> raw ! j = c \<longrightarrow> json_loads (slice raw st (j + 1)) = None"
        by simp
      ultimately have "e + 1 \<le> k \<and> k < length raw \<and> raw ! k = c \<and> json_loads (slice raw st (k + 1)) = Some v \<and>
          (\<forall>j. e + 1 \<le> j \<and> j < k \<and> raw ! j = c \<longrightarrow> json_loads (slice raw st (j + 1)) = None)"
        using k by blast
      then show "?R (e + 1)" by blast
    next
      assume "?R (e + 1)"
      then obtain k where k: "e + 1 \<le> k" "k < length raw" "raw ! k = c"
          "json_loads (slice raw st (k + 1)) = Some v"
          "\<forall>j. e + 1 \<le> j \<and> j < k \<and> raw ! j = c \<longrightarrow> json_loads (slice raw st (j + 1)) = None"
        by blast
      have "\<forall>j. e \<le> j \<and> j < k \<and> raw ! j = c \<longrightarrow> json_loads (slice raw st (j + 1)) = None"
      proof (intro allI impI)
        fix j assume j: "e \<le> j \<and> j < k \<and> raw ! j = c"
        show "json_loads (slice raw st (j + 1)) = None"
        proof (cases "j = e")
          case True
          with False j show ?thesis by auto
        next
          case F: False
          with j have "e + 1 \<le> j" by simp
          with j k(5) show ?thesis by blast
        qed
      qed
      moreover from k(1) have "e \<le> k" by simp
      ultimately have "e \<le> k \<and> k < length raw \<and> raw ! k = c \<and> json_loads (slice raw st (k + 1)) = Some v \<and>
          (\<forall>j. e \<le> j \<and> j < k \<and> raw ! j = c \<longrightarrow> json_loads (slice raw st (j + 1)) = None)"
        using k by blast
      then show "?R e" by blast
    qed
    with step ih show ?thesis by simp
  qed
qed

lemma scan_ends_None:
  "scan_ends raw st c e = None \<longleftrightarrow>
     (\<forall>k. e \<le> k \<and> k < length raw \<and> raw ! k = c \<longrightarrow> json_loads (slice raw st (k + 1)) = None)"
proof (induction "length raw - e" arbitrary: e)
  case 0
  then have "\<not> e < length raw" by simp
  then show ?case by (subst scan_ends_unfold) auto
next
  case (Suc m)
  then have inb: "e < length raw" by simp
  let ?N = "\<lambda>e. \<forall>k. e \<le> k \<and> k < length raw \<and> raw ! k = c \<longrightarrow> json_loads (slice raw st (k + 1)) = None"
  show ?case
  proof (cases "raw ! e = c \<and> json_loads (slice raw st (e + 1)) \<noteq> None")
    case True
    with inb have lhs: "scan_ends raw st c e = json_loads (slice raw st (e + 1))"
      using scan_ends_unfold[of raw st c e] by auto
    from True inb have b: "\<not> ?N e" by (metis order_refl)
    from lhs True have a: "scan_ends raw st c e \<noteq> None" by simp
    from a b show ?thesis by blast
  next
    case False
    with inb have step: "scan_ends raw st c e = scan_ends raw st c (e + 1)"
      using scan_ends_unfold[of raw st c e] by auto
    from Suc.hyps(2) have "m = length raw - (e + 1)" by simp
    from Suc.hyps(1)[OF this] have ih: "scan_ends raw st c (e + 1) = None \<longleftrightarrow> ?N (e + 1)" .
    have "?N e \<longleftrightarrow> ?N (e + 1)"
    proof
      assume "?N e"
      then show "?N (e + 1)" by simp
    next
      assume n: "?N (e + 1)"
      show "?N e"
      proof (intro allI impI)
        fix k assume k: "e \<le> k \<and> k < length raw \<and> raw ! k = c"
        show "json_loads (slice raw st (k + 1)) = None"
        proof (cases "k = e")
          case True
          with False k show ?thesis by auto
        next
          case F: False
          with k have "e + 1 \<le> k" by simp
          with k n show ?thesis by blast
        qed
      qed
    qed
    with step ih show ?thesis by simp
  qed
qed

lemma pair_scan_Some:
  assumes "py_find raw oc \<noteq> -1"
  shows "scan_ends raw (nat (py_find raw oc)) cc (nat (py_find raw oc) + 1) = Some v
           \<longleftrightarrow> shortest_bracketed raw oc cc v"
proof -
  define s where "s = nat (py_find raw oc)"
  from assms have mem: "oc \<in> set raw" by (simp add: py_find_absent)
  then have fi: "first_index raw oc s" unfolding s_def by (rule py_find_first)
  then have slen: "s < length raw" by (simp add: first_index_def)
  show ?thesis unfolding s_def[symmetric]
  proof
    assume "scan_ends raw s cc (s + 1) = Some v"
    then obtain k where k: "s + 1 \<le> k" "k < length raw" "raw ! k = cc"
        "json_loads (slice raw s (k + 1)) = Some v"
        "\<forall>j. s + 1 \<le> j \<and> j < k \<and> raw ! j = cc \<longrightarrow> json_loads (slice raw s (j + 1)) = None"
      unfolding scan_ends_Some by blast
    have c: "candidate_at raw s cc k" using k by (simp add: candidate_at_def)
    have n: "\<forall>e' \<in> {s<..<k}. \<not> candidate_at raw s cc e'"
      using k(5) by (auto simp: candidate_at_def)
    from k have kin: "k \<in> {s<..<length raw}" by simp
    from slen have sin: "s \<in> {..<length raw}" by simp
    show "shortest_bracketed raw oc cc v"
      unfolding shortest_bracketed_def using sin fi kin c k(4) n by blast
  next
    assume "shortest_bracketed raw oc cc v"
    then obtain st e where st: "first_index raw oc st" and e: "e \<in> {st<..<length raw}"
        "candidate_at raw st cc e" "json_loads (slice raw st (e + 1)) = Some v"
        "\<forall>e' \<in> {st<..<e}. \<not> candidate_at raw st cc e'"
      unfolding shortest_bracketed_def by blast
    from st fi have [simp]: "st = s" by (rule first_index_unique)
    have "\<forall>j. s + 1 \<le> j \<and> j < e \<and> raw ! j = cc \<longrightarrow> json_loads (slice raw s (j + 1)) = None"
    proof (intro allI impI)
      fix j assume j: "s + 1 \<le> j \<and> j < e \<and> raw ! j = cc"
      then have "j \<in> {s<..<e}" by simp
      with e(4) have "\<not> candidate_at raw s cc j" by simp
      with j e(1) show "json_loads (slice raw s (j + 1)) = None"
        by (simp add: candidate_at_def)
    qed
    moreover from e have "s + 1 \<le> e" "e < length raw" "raw ! e = cc"
      by (simp_all add: candidate_at_def)
    ultimately show "scan_ends raw s cc (s + 1) = Some v"
      unfolding scan_ends_Some using e(3) by auto
  qed
qed

lemma pair_scan_None:
  assumes "py_find raw oc \<noteq> -1"
  shows "scan_ends raw (nat (py_find raw oc)) cc (nat (py_find raw oc) + 1) = None
           \<longleftrightarrow> none_bracketed raw oc cc"
proof -
  define s where "s = nat (py_find raw oc)"
  from assms have mem: "oc \<in> set raw" by (simp add: py_find_absent)
  then have fi: "first_index raw oc s" unfolding s_def by (rule py_find_first)
  then have slen: "s < length raw" by (simp add: first_index_def)
  show ?thesis unfolding s_def[symmetric]
  proof
    assume a: "scan_ends raw s cc (s + 1) = None"
    show "none_bracketed raw oc cc"
      unfolding none_bracketed_def
    proof (intro ballI impI)
      fix st e assume "first_index raw oc st" and e: "e \<in> {st<..<length raw}"
      with fi have [simp]: "st = s" by (simp add: first_index_unique)
      from a e show "\<not> candidate_at raw st cc e"
        unfolding scan_ends_None by (auto simp: candidate_at_def)
    qed
  next
    assume a: "none_bracketed raw oc cc"
    from a fi slen have "\<forall>e \<in> {s<..<length raw}. \<not> candidate_at raw s cc e"
      unfolding none_bracketed_def by blast
    then show "scan_ends raw s cc (s + 1) = None"
      unfolding scan_ends_None by (auto simp: candidate_at_def)
  qed
qed

lemma absent_none_bracketed: "py_find raw oc = -1 \<Longrightarrow> none_bracketed raw oc cc"
  unfolding none_bracketed_def py_find_absent using first_index_mem by fastforce

lemma absent_not_shortest: "py_find raw oc = -1 \<Longrightarrow> \<not> shortest_bracketed raw oc cc v"
  unfolding shortest_bracketed_def py_find_absent using first_index_mem by fastforce

lemma shortest_not_none: "shortest_bracketed raw oc cc v \<Longrightarrow> \<not> none_bracketed raw oc cc"
  unfolding shortest_bracketed_def none_bracketed_def by blast

lemma bracket_scan_two_Some:
  "bracket_scan raw [(o1, c1), (o2, c2)] = Some v \<longleftrightarrow>
     shortest_bracketed raw o1 c1 v \<or>
     (none_bracketed raw o1 c1 \<and> shortest_bracketed raw o2 c2 v)"
proof (cases "py_find raw o1 = -1")
  case a1: True
  show ?thesis
  proof (cases "py_find raw o2 = -1")
    case True
    with a1 show ?thesis
      by (simp add: absent_none_bracketed absent_not_shortest)
  next
    case False
    with a1 pair_scan_Some[OF False, of c2 v] show ?thesis
      by (auto simp: absent_none_bracketed absent_not_shortest Let_def split: option.splits)
  qed
next
  case n1: False
  note p1 = pair_scan_Some[OF n1, of c1] pair_scan_None[OF n1, of c1]
  show ?thesis
  proof (cases "scan_ends raw (nat (py_find raw o1)) c1 (nat (py_find raw o1) + 1)")
    case (Some w)
    then have w: "shortest_bracketed raw o1 c1 w" using p1(1)[of w] by simp
    have "\<not> none_bracketed raw o1 c1" using w by (rule shortest_not_none)
    moreover have "shortest_bracketed raw o1 c1 v \<longleftrightarrow> w = v"
      using p1(1)[of v] Some by auto
    moreover have "bracket_scan raw [(o1, c1), (o2, c2)] = Some w"
      using n1 Some by (simp add: Let_def)
    then have "bracket_scan raw [(o1, c1), (o2, c2)] = Some v \<longleftrightarrow> w = v" by auto
    ultimately show ?thesis by blast
  next
    case None
    then have nb: "none_bracketed raw o1 c1" using p1(2) by simp
    have ns: "\<not> shortest_bracketed raw o1 c1 v" using p1(1)[of v] None by simp
    show ?thesis
    proof (cases "py_find raw o2 = -1")
      case True
      with n1 None nb ns show ?thesis
        by (simp add: absent_not_shortest Let_def)
    next
      case False
      with n1 None nb ns pair_scan_Some[OF False, of c2 v] show ?thesis
        by (auto simp: Let_def split: option.splits)
    qed
  qed
qed

lemma direct_parse:
  "json_loads (py_strip raw) = Some v \<Longrightarrow> safe_json_from_model raw = Inr v"
  by (simp add: safe_json_from_model_def)

lemma after_direct_and_fence:
  "json_loads (py_strip raw) = None \<Longrightarrow> fence_strategy (py_strip raw) = None \<Longrightarrow>
   safe_json_from_model raw =
     (case bracket_scan (py_strip raw) [(0x5B, 0x5D), (0x7B, 0x7D)] of
        Some v \<Rightarrow> Inr v
      | None \<Rightarrow> Inl (ValueError ''Could not extract JSON from model output.''))"
  by (simp add: safe_json_from_model_def Let_def del: bracket_scan.simps)

declare py_split.simps [simp del]

lemma set_py_strip: "set (py_strip s) \<subseteq> set s"
proof -
  have "set (py_strip s) \<subseteq> set (rev (dropWhile py_isspace s))"
    unfolding py_strip_def using set_dropWhileD by fastforce
  also have "\<dots> \<subseteq> set s" using set_dropWhileD by fastforce
  finally show ?thesis .
qed

lemma set_py_split: "p \<in> set (py_split sep s) \<Longrightarrow> set p \<subseteq> set s"
proof (induction sep s arbitrary: p rule: py_split.induct)
  case (1 sep)
  then show ?case by (simp add: py_split.simps(1))
next
  case (2 sep c cs)
  show ?case
  proof (cases "sep \<noteq> [] \<and> startswith (c # cs) sep")
    case True
    have "py_split sep (c # cs) = [] # py_split sep (drop (length sep) (c # cs))"
      by (subst py_split.simps(2), subst if_P[OF True]) (rule refl)
    with "2.prems" have "p = [] \<or> p \<in> set (py_split sep (drop (length sep) (c # cs)))"
      by simp
    then show ?thesis
    proof
      assume "p = []"
      then show ?thesis by simp
    next
      assume "p \<in> set (py_split sep (drop (length sep) (c # cs)))"
      from "2.IH"(1)[OF True this] have "set p \<subseteq> set (drop (length sep) (c # cs))" .
      also have "\<dots> \<subseteq> set (c # cs)" by (rule set_drop_subset)
      finally show ?thesis .
    qed
  next
    case False
    have eq: "py_split sep (c # cs) =
                (case py_split sep cs of [] \<Rightarrow> [[c]] | q # qs \<Rightarrow> (c # q) # qs)"
      by (subst py_split.simps(2), subst if_not_P[OF False]) (rule refl)
    show ?thesis
    proof (cases "py_split sep cs")
      case Nil
      with eq "2.prems" show ?thesis by simp
    next
      case (Cons q qs)
      with eq "2.prems" have "p = c # q \<or> p \<in> set qs" by simp
      then show ?thesis
      proof
        assume "p = c # q"
        moreover from "2.IH"(2)[OF False, of q] Cons have "set q \<subseteq> set cs" by simp
        ultimately show ?thesis by auto
      next
        assume "p \<in> set qs"
        with "2.IH"(2)[OF False, of p] Cons have "set p \<subseteq> set cs" by simp
        then show ?thesis by auto
      qed
    qed
  qed
qed

lemma startswith_single: "startswith s [c] \<Longrightarrow> c \<in> set s"
  by (cases s) (auto simp: startswith_def)

lemma fence_parts_no_bracket:
  "(\<forall>p \<in> set parts. 0x5B \<notin> set p \<and> 0x7B \<notin> set p) \<Longrightarrow> fence_parts parts = None"
proof (induction parts)
  case Nil
  show ?case by simp
next
  case (Cons part parts)
  then have a: "0x5B \<notin> set part" "0x7B \<notin> set part" by simp_all
  from a set_py_strip[of part] have "0x5B \<notin> set (py_strip part)" "0x7B \<notin> set (py_strip part)"
    by blast+
  then have "\<not> startswith (py_strip part) [0x5B]" "\<not> startswith (py_strip part) [0x7B]"
    by (auto dest: startswith_single)
  with Cons show ?case by (simp add: Let_def)
qed

lemma no_bracket_raises:
  assumes "0x5B \<notin> set s" "0x7B \<notin> set s" "json_loads s = None" "py_strip raw = s"
  shows "safe_json_from_model raw = Inl (ValueError ''Could not extract JSON from model output.'')"
proof -
  have "\<forall>p \<in> set (py_split fence s). 0x5B \<notin> set p \<and> 0x7B \<notin> set p"
    using assms(1,2) set_py_split by blast
  then have f: "fence_strategy s = None"
    by (simp add: fence_strategy_def fence_parts_no_bracket)
  from assms(1,2) have "py_find s 0x5B = -1" "py_find s 0x7B = -1"
    by (simp_all add: py_find_absent)
  then have b: "bracket_scan s [(0x5B, 0x5D), (0x7B, 0x7D)] = None" by simp
  from assms(3,4) f b show ?thesis
    by (simp add: safe_json_from_model_def del: bracket_scan.simps)
qed




declare py_split.simps [simp]





lemma py_strip_pad:
  assumes l: "\<forall>c \<in> set l. py_isspace c" and r: "\<forall>c \<in> set r. py_isspace c"
    and t: "t \<noteq> []" "\<not> py_isspace (hd t)" "\<not> py_isspace (last t)"
  shows "py_strip (l @ t @ r) = t"
proof -
  from t obtain a t' where a: "t = a # t'" "\<not> py_isspace a" by (cases t) auto
  from t obtain z t'' where z: "rev t = z # t''" "\<not> py_isspace z"
    by (cases "rev t") (auto simp: last_rev[symmetric] hd_rev)
  have "dropWhile py_isspace (l @ t @ r) = dropWhile py_isspace (t @ r)"
    by (rule dropWhile_append2) (use l in simp)
  also have "\<dots> = t @ r" using a by simp
  finally have 1: "dropWhile py_isspace (l @ t @ r) = t @ r" .
  have "dropWhile py_isspace (rev (t @ r)) = dropWhile py_isspace (rev r @ rev t)" by simp
  also have "\<dots> = dropWhile py_isspace (rev t)"
    by (rule dropWhile_append2) (use r in simp)
  also have "\<dots> = rev t" using z by simp
  finally have 2: "dropWhile py_isspace (rev (t @ r)) = rev t" .
  show ?thesis unfolding py_strip_def 1 2 by simp
qed

lemma digit_not_space: "is_digit c \<Longrightarrow> \<not> py_isspace c \<and> \<not> is_json_ws c"
  by (auto simp: is_digit_def py_isspace_def is_json_ws_def)

lemma digits_value_snoc: "digits_value (ds @ [d]) = 10 * digits_value ds + (d - 0x30)"
  by (simp add: digits_value_def)

lemma nat_digits_props:
  "nat_digits n \<noteq> [] \<and> (\<forall>c \<in> set (nat_digits n). is_digit c) \<and>
   digits_value (nat_digits n) = int n \<and>
   (hd (nat_digits n) = 0x30 \<longrightarrow> n = 0)"
proof (induction n rule: nat_digits.induct)
  case (1 n)
  show ?case
  proof (cases "n < 10")
    case True
    then have e: "nat_digits n = [0x30 + int n]" by (subst nat_digits.simps) simp
    from True show ?thesis unfolding e by (simp add: is_digit_def digits_value_def)
  next
    case False
    then have e: "nat_digits n = nat_digits (n div 10) @ [0x30 + int (n mod 10)]"
      by (subst nat_digits.simps) simp
    note ih = "1.IH"[OF False]
    have d: "is_digit (0x30 + int (n mod 10))" by (simp add: is_digit_def)
    have v: "digits_value (nat_digits n) = int n"
      unfolding e digits_value_snoc using ih by (simp; arith)
    have h: "hd (nat_digits n) = hd (nat_digits (n div 10))"
      unfolding e using ih by simp
    have "n div 10 \<noteq> 0" using False by simp
    with ih h have "hd (nat_digits n) \<noteq> 0x30" by auto
    with ih d v show ?thesis unfolding e by auto
  qed
qed

lemma match_number_digits:
  assumes ne: "ds \<noteq> []" and dg: "\<forall>c \<in> set ds. is_digit c"
    and lz: "hd ds = 0x30 \<longrightarrow> ds = [0x30]"
    and len: "length ds \<le> int_max_str_digits"
  shows "match_number ds = Some (JInt (digits_value ds), [])"
    and "match_number (0x2D # ds) = Some (JInt (- digits_value ds), [])"
proof -
  from ne obtain d ds' where c: "ds = d # ds'" by (cases ds) auto
  with dg have d: "is_digit d" "d \<noteq> 0x2D" by (auto simp: is_digit_def)
  have tw: "takeWhile is_digit ds' = ds'" "dropWhile is_digit ds' = []"
    using dg c by (simp_all add: takeWhile_eq_all_conv)
  have nl: "\<not> int_max_str_digits < Suc (length ds')" using len c by simp
  show "match_number ds = Some (JInt (digits_value ds), [])"
  proof (cases "d = 0x30")
    case True
    with lz c have "ds' = []" by simp
    with True c show ?thesis
      by (simp add: match_number_def is_digit_def int_max_str_digits_def)
  next
    case False
    with d nl show ?thesis unfolding c
      by (simp add: match_number_def Let_def tw)
  qed
  show "match_number (0x2D # ds) = Some (JInt (- digits_value ds), [])"
  proof (cases "d = 0x30")
    case True
    with lz c have "ds' = []" by simp
    with True c show ?thesis
      by (simp add: match_number_def is_digit_def int_max_str_digits_def)
  next
    case False
    with d nl show ?thesis unfolding c
      by (simp add: match_number_def Let_def tw)
  qed
qed

lemma scan_once_number:
  assumes "s = c # cs" and "is_digit c \<or> c = 0x2D" and "match_number s = Some x"
  shows "scan_once (Suc m) s = Some x"
proof -
  from assms(2) have k: "c \<noteq> 0x22" "c \<noteq> 0x7B" "c \<noteq> 0x5B" "c \<noteq> 0x6E" "c \<noteq> 0x74" "c \<noteq> 0x66"
    by (auto simp: is_digit_def)
  then have "\<not> startswith (c # cs) (ascii ''null'')" "\<not> startswith (c # cs) (ascii ''true'')"
      "\<not> startswith (c # cs) (ascii ''false'')"
    by (auto simp: startswith_def ascii_def)
  with k assms(1,3) show ?thesis by simp
qed

lemma json_loads_int:
  assumes "length (nat_digits (nat \<bar>n\<bar>)) \<le> int_max_str_digits"
  shows "json_loads (py_str_int n) = Some (JInt n)"
    and "py_str_int n \<noteq> []"
    and "\<not> py_isspace (hd (py_str_int n))" and "\<not> py_isspace (last (py_str_int n))"
proof -
  let ?ds = "nat_digits (nat \<bar>n\<bar>)"
  note p = nat_digits_props[of "nat \<bar>n\<bar>"]
  from p obtain d ds' where c: "?ds = d # ds'" by (cases ?ds) auto
  have dd: "is_digit d" using p c by auto
  have lz: "hd ?ds = 0x30 \<longrightarrow> ?ds = [0x30]"
  proof
    assume "hd ?ds = 0x30"
    with p have "nat \<bar>n\<bar> = 0" by blast
    then show "?ds = [0x30]" by (subst nat_digits.simps) simp
  qed
  have ne: "?ds \<noteq> []" and dg: "\<forall>c \<in> set ?ds. is_digit c" using p by blast+
  note m = match_number_digits[OF ne dg lz assms]
  have ld: "is_digit (last ?ds)" using ne dg by simp
  have e': "py_str_int n = (if n < 0 then 0x2D # ?ds else ?ds)"
    by (simp add: py_str_int_def)
  show "json_loads (py_str_int n) = Some (JInt n)"
  proof (cases "n < 0")
    case True
    then have e: "py_str_int n = 0x2D # ?ds" by (simp add: e')
    have v: "- digits_value ?ds = n" using p True by simp
    have "scan_once (Suc (length (0x2D # ?ds))) (0x2D # ?ds) = Some (JInt n, [])"
      using m(2) v by (intro scan_once_number[where c = "0x2D" and cs = ?ds]) simp_all
    then show ?thesis unfolding e
      by (simp add: json_loads_def skip_ws_def is_json_ws_def del: scan_once.simps)
  next
    case False
    then have e: "py_str_int n = ?ds" by (simp add: e')
    have v: "digits_value ?ds = n" using p False by simp
    have "scan_once (Suc (length ?ds)) ?ds = Some (JInt n, [])"
      using m(1) v c dd by (intro scan_once_number[where c = d and cs = ds']) simp_all
    moreover have "skip_ws ?ds = ?ds" using c dd digit_not_space[of d] by (simp add: skip_ws_def)
    ultimately show ?thesis unfolding e
      by (simp add: json_loads_def skip_ws_def del: scan_once.simps)
  qed
  have e2: "py_str_int n = 0x2D # ?ds \<or> py_str_int n = ?ds" unfolding e' by simp
  then show "py_str_int n \<noteq> []" using ne by auto
  have m: "\<not> py_isspace 0x2D" by (simp add: py_isspace_def)
  have sd: "\<not> py_isspace d" using dd by (simp add: digit_not_space)
  have sl: "\<not> py_isspace (last ?ds)" using ld by (simp add: digit_not_space)
  from e2 c have "hd (py_str_int n) = 0x2D \<or> hd (py_str_int n) = d" by auto
  with m sd show "\<not> py_isspace (hd (py_str_int n))" by metis
  from e2 ne have "last (py_str_int n) = last ?ds" by auto
  with sl show "\<not> py_isspace (last (py_str_int n))" by simp
qed

lemma scanstring_plain:
  "\<forall>c \<in> set x. plain_char c \<Longrightarrow> scanstring (x @ 0x22 # rest) = Some (x, rest)"
proof (induction x)
  case Nil
  show ?case by simp
next
  case (Cons c x)
  then have "c \<noteq> 0x22" "c \<noteq> 0x5C" "\<not> c < 0x20" by (auto simp: plain_char_def)
  with Cons show ?case by (simp add: cons_chunk_def)
qed

lemma json_loads_string:
  assumes "\<forall>c \<in> set x. plain_char c"
  shows "json_loads ([0x22] @ x @ [0x22]) = Some (JString x)"
proof -
  have "scan_once (Suc (length ([0x22] @ x @ [0x22]))) (0x22 # x @ [0x22]) = Some (JString x, [])"
    using scanstring_plain[OF assms, of "[]"] by simp
  then show ?thesis
    by (simp add: json_loads_def skip_ws_def is_json_ws_def del: scan_once.simps)
qed

lemma json_loads_literals:
  "json_loads (ascii ''true'') = Some (JBool True)"
  "json_loads (ascii ''false'') = Some (JBool False)"
  "json_loads (ascii ''null'') = Some JNull"
  by (simp_all add: json_loads_def skip_ws_def is_json_ws_def ascii_def startswith_def)

lemma padded_direct_parse:
  assumes "\<forall>c \<in> set l. py_isspace c" and "\<forall>c \<in> set r. py_isspace c"
    and "t \<noteq> []" "\<not> py_isspace (hd t)" "\<not> py_isspace (last t)"
    and "json_loads t = Some v"
  shows "safe_json_from_model (l @ t @ r) = Inr v"
  using assms(6) unfolding safe_json_from_model_def py_strip_pad[OF assms(1-5)] by simp

lemma long_integer_refused:
  assumes "int_max_str_digits < n"
  shows "safe_json_from_model (replicate n 0x31) =
           Inl (ValueError ''Could not extract JSON from model output.'')"
proof -
  let ?s = "replicate n (0x31 :: codepoint)"
  from assms obtain k where n: "n = Suc k" by (cases n) auto
  have c: "?s = 0x31 # replicate k 0x31" by (simp add: n)
  have dg: "\<forall>c \<in> set ?s. is_digit c" by (simp add: is_digit_def)
  have tw: "takeWhile is_digit (replicate k 0x31) = replicate k 0x31"
      "dropWhile is_digit (replicate k 0x31) = []"
    by (simp_all add: takeWhile_eq_all_conv is_digit_def)
  have big: "int_max_str_digits < Suc k" using assms n by simp
  have m: "match_number (0x31 # replicate k 0x31) = None"
    using tw big by (simp add: match_number_def Let_def is_digit_def)
  have "scan_once (Suc (length ?s)) (0x31 # replicate k 0x31) = None"
    using m by (simp add: startswith_def ascii_def)
  then have j: "json_loads ?s = None"
    unfolding c by (simp add: json_loads_def skip_ws_def is_json_ws_def del: scan_once.simps)
  have st: "py_strip ?s = ?s"
    using py_strip_pad[of "[]" "[]" ?s] by (simp add: n py_isspace_def)
  show ?thesis
    by (rule no_bracket_raises[of ?s]) (use j st in simp_all)
qed

lemma json_loads_digits:
  assumes ne: "ds \<noteq> []" and dg: "\<forall>c \<in> set ds. is_digit c"
    and lz: "hd ds = 0x30 \<longrightarrow> ds = [0x30]"
    and len: "length ds \<le> int_max_str_digits"
  shows "json_loads ds = Some (JInt (digits_value ds))"
proof -
  from ne obtain d ds' where c: "ds = d # ds'" by (cases ds) auto
  with dg have dd: "is_digit d" by simp
  have "scan_once (Suc (length ds)) ds = Some (JInt (digits_value ds), [])"
    using match_number_digits(1)[OF ne dg lz len] c dd
    by (intro scan_once_number[where c = d and cs = ds']) simp_all
  moreover have "skip_ws ds = ds" using c dd digit_not_space[of d] by (simp add: skip_ws_def)
  ultimately show ?thesis
    by (simp add: json_loads_def skip_ws_def del: scan_once.simps)
qed

text \<open>
  C10, as amended. Whenever the trimmed input is a JSON text that \<open>json.loads\<close> accepts,
  \<open>safe_json_from_model\<close> returns its value from the direct parse, a scalar as well as a
  list or an object. For the scalars this is shown from the text itself, with any
  whitespace that \<open>strip\<close> removes around it: the decimal text of an integer of at most
  4300 digits gives that integer, a quoted text of plain characters gives that string,
  and \<open>true\<close>, \<open>false\<close> and \<open>null\<close> give their values; the input \<open>42\<close> yields the
  number 42. (An integer literal of more than 4300 digits is valid JSON, but the
  interpreter refuses to convert it.)
\<close>

theorem direct_parse_returns_any_json_value:
  "((\<forall>c \<in> set l. py_isspace c) \<and> (\<forall>c \<in> set r. py_isspace c) \<longrightarrow>
      (length (nat_digits (nat \<bar>n\<bar>)) \<le> int_max_str_digits \<longrightarrow>
         safe_json_from_model (l @ py_str_int n @ r) = Inr (JInt n)) \<and>
      ((\<forall>c \<in> set x. plain_char c) \<longrightarrow>
         safe_json_from_model (l @ [0x22] @ x @ [0x22] @ r) = Inr (JString x)) \<and>
      safe_json_from_model (l @ ascii ''true'' @ r) = Inr (JBool True) \<and>
      safe_json_from_model (l @ ascii ''false'' @ r) = Inr (JBool False) \<and>
      safe_json_from_model (l @ ascii ''null'' @ r) = Inr JNull \<and>
      (t \<noteq> [] \<and> \<not> py_isspace (hd t) \<and> \<not> py_isspace (last t) \<and> json_loads t = Some v \<longrightarrow>
         safe_json_from_model (l @ t @ r) = Inr v)) \<and>
   (json_loads (py_strip raw) = Some w \<longrightarrow> safe_json_from_model raw = Inr w) \<and>
   safe_json_from_model (ascii ''42'') = Inr (JInt 42) \<and>
   safe_json_from_model ([0x0C] @ ascii ''42'' @ [0x0A]) = Inr (JInt 42) \<and>
   safe_json_from_model (ascii '' \"hi\" '') = Inr (JString (ascii ''hi'')) \<and>
   safe_json_from_model (ascii ''-2.5e3'') = Inr (JFloat (ascii ''-2.5e3''))"
proof (intro conjI impI)
  assume p: "(\<forall>c \<in> set l. py_isspace c) \<and> (\<forall>c \<in> set r. py_isspace c)"
  assume d: "length (nat_digits (nat \<bar>n\<bar>)) \<le> int_max_str_digits"
  from p json_loads_int[OF d]
  show "safe_json_from_model (l @ py_str_int n @ r) = Inr (JInt n)"
    by (intro padded_direct_parse) blast+
next
  assume p: "(\<forall>c \<in> set l. py_isspace c) \<and> (\<forall>c \<in> set r. py_isspace c)"
  assume x: "\<forall>c \<in> set x. plain_char c"
  have "safe_json_from_model (l @ ([0x22] @ x @ [0x22]) @ r) = Inr (JString x)"
    using p json_loads_string[OF x]
    by (intro padded_direct_parse) (simp_all add: py_isspace_def)
  then show "safe_json_from_model (l @ [0x22] @ x @ [0x22] @ r) = Inr (JString x)" by simp
next
  assume p: "(\<forall>c \<in> set l. py_isspace c) \<and> (\<forall>c \<in> set r. py_isspace c)"
  then show "safe_json_from_model (l @ ascii ''true'' @ r) = Inr (JBool True)"
    using json_loads_literals(1)
    by (intro padded_direct_parse) (simp_all add: py_isspace_def ascii_def)
next
  assume p: "(\<forall>c \<in> set l. py_isspace c) \<and> (\<forall>c \<in> set r. py_isspace c)"
  then show "safe_json_from_model (l @ ascii ''false'' @ r) = Inr (JBool False)"
    using json_loads_literals(2)
    by (intro padded_direct_parse) (simp_all add: py_isspace_def ascii_def)
next
  assume p: "(\<forall>c \<in> set l. py_isspace c) \<and> (\<forall>c \<in> set r. py_isspace c)"
  then show "safe_json_from_model (l @ ascii ''null'' @ r) = Inr JNull"
    using json_loads_literals(3)
    by (intro padded_direct_parse) (simp_all add: py_isspace_def ascii_def)
next
  assume p: "(\<forall>c \<in> set l. py_isspace c) \<and> (\<forall>c \<in> set r. py_isspace c)"
  assume t: "t \<noteq> [] \<and> \<not> py_isspace (hd t) \<and> \<not> py_isspace (last t) \<and> json_loads t = Some v"
  from p t show "safe_json_from_model (l @ t @ r) = Inr v"
    by (intro padded_direct_parse) blast+
next
  assume "json_loads (py_strip raw) = Some w"
  then show "safe_json_from_model raw = Inr w" by (rule direct_parse)
next
  show "safe_json_from_model (ascii ''42'') = Inr (JInt 42)" by code_simp
next
  show "safe_json_from_model ([0x0C] @ ascii ''42'' @ [0x0A]) = Inr (JInt 42)" by code_simp
next
  show "safe_json_from_model (ascii '' \"hi\" '') = Inr (JString (ascii ''hi''))" by code_simp
next
  show "safe_json_from_model (ascii ''-2.5e3'') = Inr (JFloat (ascii ''-2.5e3''))" by code_simp
qed

theorem direct_parse_returns_any_json_value_witness:
  "list_all py_isspace [0x0C, 0x20] \<and> list_all py_isspace [0x0A, 0xA0] \<and>
   length (nat_digits (nat \<bar>- 17\<bar>)) \<le> int_max_str_digits \<and>
   list_all plain_char (ascii ''hi there'') \<and>
   ascii ''[1, 2]'' \<noteq> [] \<and> \<not> py_isspace (hd (ascii ''[1, 2]'')) \<and>
   \<not> py_isspace (last (ascii ''[1, 2]'')) \<and>
   json_loads (ascii ''[1, 2]'') = Some (JList [JInt 1, JInt 2]) \<and>
   json_loads (py_strip (ascii ''  17  '')) = Some (JInt 17) \<and>
   safe_json_from_model ([0x0C, 0x20] @ py_str_int (- 17) @ [0x0A, 0xA0]) = Inr (JInt (- 17)) \<and>
   safe_json_from_model ([0x0C, 0x20] @ [0x22] @ ascii ''hi there'' @ [0x22] @ [0x0A, 0xA0])
     = Inr (JString (ascii ''hi there'')) \<and>
   safe_json_from_model ([0x0C, 0x20] @ ascii ''[1, 2]'' @ [0x0A, 0xA0])
     = Inr (JList [JInt 1, JInt 2]) \<and>
   safe_json_from_model (ascii ''  17  '') = Inr (JInt 17)"
proof -
  have l: "list_all py_isspace [0x0C, 0x20]" by code_simp
  have r: "list_all py_isspace [0x0A, 0xA0]" by code_simp
  have d: "length (nat_digits (nat \<bar>- 17\<bar>)) \<le> int_max_str_digits" by code_simp
  have x: "list_all plain_char (ascii ''hi there'')" by code_simp
  have t1: "ascii ''[1, 2]'' \<noteq> []" by code_simp
  have t2: "\<not> py_isspace (hd (ascii ''[1, 2]''))" by code_simp
  have t3: "\<not> py_isspace (last (ascii ''[1, 2]''))" by code_simp
  have t4: "json_loads (ascii ''[1, 2]'') = Some (JList [JInt 1, JInt 2])" by code_simp
  have h: "json_loads (py_strip (ascii ''  17  '')) = Some (JInt 17)" by code_simp
  from l r have p: "(\<forall>c \<in> set [0x0C, 0x20]. py_isspace c) \<and> (\<forall>c \<in> set [0x0A, 0xA0]. py_isspace c)"
    unfolding list_all_iff by blast
  from x have x': "\<forall>c \<in> set (ascii ''hi there''). plain_char c"
    unfolding list_all_iff by blast
  note t = direct_parse_returns_any_json_value
             [of "[0x0C, 0x20]" "[0x0A, 0xA0]" "- 17" "ascii ''hi there''" "ascii ''[1, 2]''"
                 "JList [JInt 1, JInt 2]" "ascii ''  17  ''" "JInt 17"]
  from t p d have a: "safe_json_from_model ([0x0C, 0x20] @ py_str_int (- 17) @ [0x0A, 0xA0])
                        = Inr (JInt (- 17))"
    by blast
  from t p x' have b:
    "safe_json_from_model ([0x0C, 0x20] @ [0x22] @ ascii ''hi there'' @ [0x22] @ [0x0A, 0xA0])
       = Inr (JString (ascii ''hi there''))"
    by blast
  from t p t1 t2 t3 t4 have c:
    "safe_json_from_model ([0x0C, 0x20] @ ascii ''[1, 2]'' @ [0x0A, 0xA0])
       = Inr (JList [JInt 1, JInt 2])"
    by blast
  from t h have e: "safe_json_from_model (ascii ''  17  '') = Inr (JInt 17)" by blast
  from l r d x t1 t2 t3 t4 h a b c e show ?thesis by blast
qed

theorem direct_parse_long_integer_counterexample:
  "list_all is_digit (replicate 4301 0x31) \<and>
   safe_json_from_model (replicate 4301 0x31) =
     Inl (ValueError ''Could not extract JSON from model output.'') \<and>
   safe_json_from_model (replicate 4300 0x31) = Inr (JInt (digits_value (replicate 4300 0x31)))"
proof (intro conjI)
  show "list_all is_digit (replicate 4301 0x31)"
    by (simp add: list_all_iff is_digit_def)
next
  show "safe_json_from_model (replicate 4301 0x31) =
     Inl (ValueError ''Could not extract JSON from model output.'')"
    by (rule long_integer_refused) (simp add: int_max_str_digits_def)
next
  have "json_loads (replicate 4300 0x31) = Some (JInt (digits_value (replicate 4300 0x31)))"
    by (rule json_loads_digits) (simp_all add: is_digit_def int_max_str_digits_def)
  moreover have "py_strip (replicate 4300 0x31) = replicate 4300 0x31"
    using py_strip_pad[of "[]" "[]" "replicate 4300 0x31"] by (simp add: py_isspace_def)
  ultimately show "safe_json_from_model (replicate 4300 0x31)
                     = Inr (JInt (digits_value (replicate 4300 0x31)))"
    by (simp add: direct_parse)
qed

text \<open>
  C2: when the direct parse and the fence strategy fail, the bracket scan returns the
  parse of the shortest text that starts at the first opening bracket, ends at a closing
  bracket and parses, the pair \<open>[ ]\<close> being tried before \<open>{ }\<close>; on
  \<open>prefix { "a": 1 } { "a": 1, "b": 2 } suffix\<close> the result is the object
  \<open>{"a": 1}\<close>, not the longer second object.
\<close>

theorem bracket_scan_returns_shortest:
  "(json_loads (py_strip raw) = None \<and> fence_strategy (py_strip raw) = None \<longrightarrow>
      (\<forall>v. safe_json_from_model raw = Inr v \<longleftrightarrow>
            shortest_bracketed (py_strip raw) 0x5B 0x5D v \<or>
            (none_bracketed (py_strip raw) 0x5B 0x5D \<and>
             shortest_bracketed (py_strip raw) 0x7B 0x7D v))) \<and>
   safe_json_from_model (ascii ''prefix { \"a\": 1 } { \"a\": 1, \"b\": 2 } suffix'')
     = Inr (JDict [(ascii ''a'', JInt 1)]) \<and>
   json_loads (ascii ''{ \"a\": 1, \"b\": 2 }'')
     = Some (JDict [(ascii ''a'', JInt 1), (ascii ''b'', JInt 2)])"
proof (intro conjI impI allI)
  fix v
  assume a: "json_loads (py_strip raw) = None \<and> fence_strategy (py_strip raw) = None"
  then have "safe_json_from_model raw =
     (case bracket_scan (py_strip raw) [(0x5B, 0x5D), (0x7B, 0x7D)] of
        Some v \<Rightarrow> Inr v
      | None \<Rightarrow> Inl (ValueError ''Could not extract JSON from model output.''))"
    by (simp add: after_direct_and_fence)
  then have "safe_json_from_model raw = Inr v \<longleftrightarrow>
      bracket_scan (py_strip raw) [(0x5B, 0x5D), (0x7B, 0x7D)] = Some v"
    by (simp split: option.splits)
  then show "safe_json_from_model raw = Inr v \<longleftrightarrow>
            shortest_bracketed (py_strip raw) 0x5B 0x5D v \<or>
            (none_bracketed (py_strip raw) 0x5B 0x5D \<and>
             shortest_bracketed (py_strip raw) 0x7B 0x7D v)"
    by (simp only: bracket_scan_two_Some)
next
  show "safe_json_from_model (ascii ''prefix { \"a\": 1 } { \"a\": 1, \"b\": 2 } suffix'')
     = Inr (JDict [(ascii ''a'', JInt 1)])" by code_simp
next
  show "json_loads (ascii ''{ \"a\": 1, \"b\": 2 }'')
     = Some (JDict [(ascii ''a'', JInt 1), (ascii ''b'', JInt 2)])" by code_simp
qed

theorem bracket_scan_returns_shortest_witness:
  "json_loads (py_strip (ascii ''see { \"k\": 2 } or { \"k\": 2, \"m\": 3 }.'')) = None \<and>
   fence_strategy (py_strip (ascii ''see { \"k\": 2 } or { \"k\": 2, \"m\": 3 }.'')) = None \<and>
   none_bracketed (py_strip (ascii ''see { \"k\": 2 } or { \"k\": 2, \"m\": 3 }.'')) 0x5B 0x5D \<and>
   shortest_bracketed (py_strip (ascii ''see { \"k\": 2 } or { \"k\": 2, \"m\": 3 }.'')) 0x7B 0x7D
     (JDict [(ascii ''k'', JInt 2)])"
proof -
  let ?raw = "ascii ''see { \"k\": 2 } or { \"k\": 2, \"m\": 3 }.''"
  have h1: "json_loads (py_strip ?raw) = None" by code_simp
  have h2: "fence_strategy (py_strip ?raw) = None" by code_simp
  have r: "safe_json_from_model ?raw = Inr (JDict [(ascii ''k'', JInt 2)])" by code_simp
  have f: "py_find (py_strip ?raw) 0x5B = -1" by code_simp
  from f have n: "none_bracketed (py_strip ?raw) 0x5B 0x5D" by (rule absent_none_bracketed)
  from f have ns: "\<not> shortest_bracketed (py_strip ?raw) 0x5B 0x5D (JDict [(ascii ''k'', JInt 2)])"
    by (rule absent_not_shortest)
  from bracket_scan_returns_shortest[of ?raw] h1 h2 r ns
  have "shortest_bracketed (py_strip ?raw) 0x7B 0x7D (JDict [(ascii ''k'', JInt 2)])" by blast
  with h1 h2 n show ?thesis by blast
qed




section \<open>Properties of ENT.XP\<close>

lemma dict_get_set_same: "dict_get (dict_set k v d) k = Some v"
  by (induction d) (auto simp: dict_get_def)

lemma dict_get_set_other: "k' \<noteq> k \<Longrightarrow> dict_get (dict_set k v d) k' = dict_get d k'"
  by (induction d) (auto simp: dict_get_def)

lemma roles_loop_keeps:
  "roles_loop idx roles c s = Inr (s', r) \<Longrightarrow>
     ent_simulations s' = ent_simulations s \<and> requests s' = requests s"
proof (induction roles arbitrary: idx)
  case Nil
  then show ?case by simp
next
  case (Cons role roles)
  from Cons.prems show ?case
    by (auto simp: ent_go_to_def split: sum.splits json.splits if_splits dest: Cons.IH)
qed

lemma show_roles_keeps:
  "ent_show_roles c s = Inr s' \<Longrightarrow>
     ent_simulations s' = ent_simulations s \<and> requests s' = requests s"
  by (auto simp: ent_show_roles_def ent_go_to_def Let_def
           split: sum.splits if_splits prod.splits dest: roles_loop_keeps)

lemma show_landing_keeps:
  "ent_simulations (ent_show_landing c s) = ent_simulations s \<and>
   requests (ent_show_landing c s) = requests s"
  by (simp add: ent_show_landing_def ent_go_to_def)

lemma show_quiz_keeps:
  "ent_simulations (ent_show_quiz b c s) = ent_simulations s \<and>
   simulation_requests n (ent_show_quiz b c s) = simulation_requests n s"
  by (cases c)
     (simp_all add: ent_show_quiz_def ent_go_to_def call_bedrock_def simulation_requests_def)

lemma first_visit:
  assumes "ent_selected_role s = Some role"
    and "subscript role (ascii ''role_name'') = Inr rn"
    and "subscript role (ascii ''one_sentence_hook'') = Inr hk"
    and "subscript role (ascii ''why_it_fits_this_person'') = Inr ft"
    and "hashable rn"
    and "dict_get (ent_simulations s) rn = None"
  shows "ent_show_simulation b c s =
     (case render_simulation (ent_generate_day_simulation rn ft (b (length (requests s)))) of
        Inl e \<Rightarrow>
          (Inl e,
           s\<lparr>requests := requests s @ [SimulationRequest rn ft],
             ent_simulations :=
               dict_set rn (ent_generate_day_simulation rn ft (b (length (requests s))))
                 (ent_simulations s)\<rparr>)
      | Inr page \<Rightarrow>
          (Inr (Some (ent_generate_day_simulation rn ft (b (length (requests s))))),
           simulation_buttons c
             (s\<lparr>requests := requests s @ [SimulationRequest rn ft],
                ent_simulations :=
                  dict_set rn (ent_generate_day_simulation rn ft (b (length (requests s))))
                    (ent_simulations s)\<rparr>)))"
  using assms by (simp add: ent_show_simulation_def Let_def call_bedrock_def)

lemma cached_visit:
  assumes "ent_selected_role s = Some role"
    and "subscript role (ascii ''role_name'') = Inr rn"
    and "subscript role (ascii ''one_sentence_hook'') = Inr hk"
    and "subscript role (ascii ''why_it_fits_this_person'') = Inr ft"
    and "hashable rn"
    and "dict_get (ent_simulations s) rn = Some sim"
  shows "ent_show_simulation b c s =
     (case render_simulation sim of
        Inl e \<Rightarrow> (Inl e, s)
      | Inr page \<Rightarrow> (Inr (Some sim), simulation_buttons c s))"
  using assms by (simp add: ent_show_simulation_def Let_def)

lemma buttons_keep:
  "c \<noteq> StartOver \<Longrightarrow>
     ent_simulations (simulation_buttons c s) = ent_simulations s \<and>
     requests (simulation_buttons c s) = requests s"
  by (simp add: simulation_buttons_def ent_go_to_def)

lemma buttons_start_over:
  "ent_simulations (simulation_buttons StartOver s) = [] \<and>
   ent_role_options (simulation_buttons StartOver s) = [] \<and>
   ent_selected_role (simulation_buttons StartOver s) = None \<and>
   ent_stage (simulation_buttons StartOver s) = ''landing''"
  by (simp add: simulation_buttons_def ent_go_to_def)

lemma show_simulation_step:
  assumes "ent_show_simulation b c s = (r, s')" and "c \<noteq> StartOver"
  shows "(ent_simulations s' = ent_simulations s \<and> requests s' = requests s) \<or>
         (\<exists>k f sim. dict_get (ent_simulations s) k = None \<and>
                     ent_simulations s' = dict_set k sim (ent_simulations s) \<and>
                     requests s' = requests s @ [SimulationRequest k f])"
proof (cases "ent_selected_role s")
  case None
  with assms show ?thesis
    by (auto simp: ent_show_simulation_def ent_go_to_def split: if_splits)
next
  case (Some role)
  have same: "s' = s \<Longrightarrow> ?thesis" by simp
  show ?thesis
  proof (cases "subscript role (ascii ''role_name'')")
    case (Inl e)
    with Some assms(1) have "s' = s" by (simp add: ent_show_simulation_def)
    then show ?thesis by (rule same)
  next
    case rn: (Inr rn)
    show ?thesis
    proof (cases "subscript role (ascii ''one_sentence_hook'')")
      case (Inl e)
      with Some rn assms(1) have "s' = s" by (simp add: ent_show_simulation_def)
      then show ?thesis by (rule same)
    next
      case hk: (Inr hk)
      show ?thesis
      proof (cases "subscript role (ascii ''why_it_fits_this_person'')")
        case (Inl e)
        with Some rn hk assms(1) have "s' = s" by (simp add: ent_show_simulation_def)
        then show ?thesis by (rule same)
      next
        case ft: (Inr ft)
        show ?thesis
        proof (cases "hashable rn")
          case False
          with Some rn hk ft assms(1) have "s' = s" by (simp add: ent_show_simulation_def)
          then show ?thesis by (rule same)
        next
          case hs: True
          show ?thesis
          proof (cases "dict_get (ent_simulations s) rn")
            case None
            define sim0 where "sim0 = ent_generate_day_simulation rn ft (b (length (requests s)))"
            define s1 where "s1 = s\<lparr>requests := requests s @ [SimulationRequest rn ft],
                                      ent_simulations := dict_set rn sim0 (ent_simulations s)\<rparr>"
            have "ent_show_simulation b c s =
                    (case render_simulation sim0 of
                       Inl e \<Rightarrow> (Inl e, s1)
                     | Inr page \<Rightarrow> (Inr (Some sim0), simulation_buttons c s1))"
              unfolding sim0_def s1_def by (rule first_visit[OF Some rn hk ft hs None])
            with assms(1) have "s' = s1 \<or> s' = simulation_buttons c s1"
              by (cases "render_simulation sim0") auto
            then have "ent_simulations s' = ent_simulations s1" and "requests s' = requests s1"
              using buttons_keep[OF assms(2), of s1] by auto
            then have "ent_simulations s' = dict_set rn sim0 (ent_simulations s)"
                and "requests s' = requests s @ [SimulationRequest rn ft]"
              by (simp_all add: s1_def)
            with None show ?thesis by blast
          next
            case (Some sim)
            have "ent_show_simulation b c s =
                    (case render_simulation sim of
                       Inl e \<Rightarrow> (Inl e, s)
                     | Inr page \<Rightarrow> (Inr (Some sim), simulation_buttons c s))"
              by (rule cached_visit[OF \<open>ent_selected_role s = Some role\<close> rn hk ft hs Some])
            with assms(1) have "s' = s \<or> s' = simulation_buttons c s"
              by (cases "render_simulation sim") auto
            then have "ent_simulations s' = ent_simulations s" and "requests s' = requests s"
              using buttons_keep[OF assms(2), of s] by auto
            then show ?thesis by blast
          qed
        qed
      qed
    qed
  qed
qed

lemma main_step:
  assumes "c \<noteq> StartOver"
  shows "(\<forall>k v. dict_get (ent_simulations s) k = Some v \<longrightarrow>
            dict_get (ent_simulations (snd (ent_main b c s))) k = Some v)
         \<and> pending n (snd (ent_main b c s)) \<le> pending n s
         \<and> simulation_requests n s \<le> simulation_requests n (snd (ent_main b c s))"
proof -
  define s' where "s' = snd (ent_main b c s)"
  consider (sim) r where "ent_show_simulation b c s = (r, s')"
    | (roles) "ent_show_roles c s = Inr s'"
    | (same) "s' = s"
    | (quiz) "s' = ent_show_quiz b c s"
    | (landing) "s' = ent_show_landing c s"
  proof (cases "ent_stage s = ''landing''")
    case True
    then have "s' = ent_show_landing c s" by (simp add: s'_def ent_main_def)
    then show ?thesis by (rule that(5))
  next
    case nl: False
    show ?thesis
    proof (cases "ent_stage s = ''quiz''")
      case True
      then have "s' = ent_show_quiz b c s" by (simp add: s'_def ent_main_def)
      then show ?thesis by (rule that(4))
    next
      case nq: False
      show ?thesis
      proof (cases "ent_stage s = ''roles''")
        case True
        show ?thesis
        proof (cases "ent_show_roles c s")
          case (Inl e)
          with True have "s' = s" by (simp add: s'_def ent_main_def)
          then show ?thesis by (rule that(3))
        next
          case (Inr s1)
          with True have "s' = s1" by (simp add: s'_def ent_main_def)
          with Inr show ?thesis using that(2) by simp
        qed
      next
        case nr: False
        show ?thesis
        proof (cases "ent_stage s = ''simulation''")
          case True
          obtain r s1 where e: "ent_show_simulation b c s = (r, s1)"
            by (cases "ent_show_simulation b c s") auto
          with nl nq nr True have "s' = s1"
            by (cases r) (simp_all add: s'_def ent_main_def)
          with e show ?thesis using that(1) by simp
        next
          case False
          with nl nq nr have "s' = ent_show_landing c s" by (simp add: s'_def ent_main_def)
          then show ?thesis by (rule that(5))
        qed
      qed
    qed
  qed
  then have "(\<forall>k v. dict_get (ent_simulations s) k = Some v \<longrightarrow>
            dict_get (ent_simulations s') k = Some v)
         \<and> pending n s' \<le> pending n s
         \<and> simulation_requests n s \<le> simulation_requests n s'"
  proof cases
    case sim
    from show_simulation_step[OF sim assms] show ?thesis
    proof
      assume "ent_simulations s' = ent_simulations s \<and> requests s' = requests s"
      then show ?thesis by (simp add: pending_def simulation_requests_def)
    next
      assume "\<exists>k f sim. dict_get (ent_simulations s) k = None \<and>
                     ent_simulations s' = dict_set k sim (ent_simulations s) \<and>
                     requests s' = requests s @ [SimulationRequest k f]"
      then obtain k f sm where k: "dict_get (ent_simulations s) k = None"
          "ent_simulations s' = dict_set k sm (ent_simulations s)"
          "requests s' = requests s @ [SimulationRequest k f]"
        by blast
      have a: "\<forall>k' v. dict_get (ent_simulations s) k' = Some v \<longrightarrow>
                 dict_get (ent_simulations s') k' = Some v"
      proof (intro allI impI)
        fix k' v assume h: "dict_get (ent_simulations s) k' = Some v"
        with k(1) have "k' \<noteq> k" by auto
        with h k(2) show "dict_get (ent_simulations s') k' = Some v"
          by (simp add: dict_get_set_other)
      qed
      have b: "pending n s' \<le> pending n s"
      proof (cases "k = n")
        case True
        with k show ?thesis
          by (simp add: pending_def simulation_requests_def dict_get_set_same)
      next
        case False
        then have "n \<noteq> k" by simp
        with k show ?thesis
          by (simp add: pending_def simulation_requests_def dict_get_set_other)
      qed
      have c: "simulation_requests n s \<le> simulation_requests n s'"
        using k(3) by (simp add: simulation_requests_def)
      from a b c show ?thesis by blast
    qed
  next
    case roles
    from show_roles_keeps[OF roles] show ?thesis
      by (simp add: pending_def simulation_requests_def)
  next
    case same
    then show ?thesis by simp
  next
    case quiz
    with show_quiz_keeps[of b c s n] show ?thesis
      by (simp add: pending_def)
  next
    case landing
    with show_landing_keeps[of c s] show ?thesis
      by (simp add: pending_def simulation_requests_def)
  qed
  then show ?thesis unfolding s'_def .
qed

lemma run_session_invariant:
  "StartOver \<notin> set cs \<Longrightarrow>
     (\<forall>k v. dict_get (ent_simulations s) k = Some v \<longrightarrow>
            dict_get (ent_simulations (run_session b cs s)) k = Some v)
     \<and> pending n (run_session b cs s) \<le> pending n s
     \<and> simulation_requests n s \<le> simulation_requests n (run_session b cs s)"
proof (induction cs arbitrary: s)
  case Nil
  show ?case by simp
next
  case (Cons c cs)
  then have c: "c \<noteq> StartOver" and cs: "StartOver \<notin> set cs" by auto
  from main_step[OF c, of s b n] Cons.IH[OF cs, of "snd (ent_main b c s)"] show ?case
    by (simp; meson le_trans)
qed

text \<open>
  C4: in the simulation view, the first visit for a role name sends one request to the
  model and stores the generated simulation under that name, also when rendering that
  simulation then raises; a later visit for the same name takes the stored value and
  sends no request, whatever the model would answer. Along any sequence of runs of
  ENT.XP without ``start over'', whether the runs complete or raise, a stored simulation
  stays as it is and at most one simulation is requested per role name (none for a name
  that is already stored). A run of the view that reaches the ``start over'' button (the
  rendering does not raise) empties the simulations map, the role options and the
  selected role, and returns to the landing stage.
\<close>

theorem simulation_generated_at_most_once:
  "(ent_selected_role s = Some role \<and>
    subscript role (ascii ''role_name'') = Inr (JString n) \<and>
    subscript role (ascii ''one_sentence_hook'') = Inr hook \<and>
    subscript role (ascii ''why_it_fits_this_person'') = Inr fit \<longrightarrow>
      (c \<noteq> StartOver \<and> dict_get (ent_simulations s) (JString n) = None \<longrightarrow>
         (\<exists>sim s1.
             sim = ent_generate_day_simulation (JString n) fit (b (length (requests s))) \<and>
             ent_show_simulation b c s =
               ((case render_simulation sim of Inl e \<Rightarrow> Inl e | Inr page \<Rightarrow> Inr (Some sim)), s1) \<and>
             dict_get (ent_simulations s1) (JString n) = Some sim \<and>
             requests s1 = requests s @ [SimulationRequest (JString n) fit])) \<and>
      (\<forall>sim. c \<noteq> StartOver \<and> dict_get (ent_simulations s) (JString n) = Some sim \<longrightarrow>
         (\<exists>s1. ent_show_simulation b c s =
               ((case render_simulation sim of Inl e \<Rightarrow> Inl e | Inr page \<Rightarrow> Inr (Some sim)), s1) \<and>
             ent_simulations s1 = ent_simulations s \<and> requests s1 = requests s)) \<and>
      (\<forall>shown s1. ent_show_simulation b StartOver s = (Inr shown, s1) \<longrightarrow>
             ent_simulations s1 = [] \<and> ent_role_options s1 = [] \<and>
             ent_selected_role s1 = None \<and> ent_stage s1 = ''landing'') \<and>
      (\<forall>sim. dict_get (ent_simulations s) (JString n) = Some sim \<and>
             render_simulation sim = Inr () \<longrightarrow>
             (\<exists>s1. ent_show_simulation b StartOver s = (Inr (Some sim), s1)))) \<and>
   (StartOver \<notin> set cs \<longrightarrow>
      simulation_requests k (run_session b cs s) \<le> simulation_requests k s + 1 \<and>
      (\<forall>sim. dict_get (ent_simulations s) k = Some sim \<longrightarrow>
         dict_get (ent_simulations (run_session b cs s)) k = Some sim \<and>
         simulation_requests k (run_session b cs s) = simulation_requests k s))"
proof (intro conjI impI allI)
  assume a: "ent_selected_role s = Some role \<and>
    subscript role (ascii ''role_name'') = Inr (JString n) \<and>
    subscript role (ascii ''one_sentence_hook'') = Inr hook \<and>
    subscript role (ascii ''why_it_fits_this_person'') = Inr fit"
  assume m: "c \<noteq> StartOver \<and> dict_get (ent_simulations s) (JString n) = None"
  define sim0 where "sim0 = ent_generate_day_simulation (JString n) fit (b (length (requests s)))"
  define s1 where "s1 = s\<lparr>requests := requests s @ [SimulationRequest (JString n) fit],
                            ent_simulations := dict_set (JString n) sim0 (ent_simulations s)\<rparr>"
  define s2 where "s2 = (case render_simulation sim0 of
                            Inl e \<Rightarrow> s1 | Inr page \<Rightarrow> simulation_buttons c s1)"
  have "ent_show_simulation b c s =
          (case render_simulation sim0 of
             Inl e \<Rightarrow> (Inl e, s1)
           | Inr page \<Rightarrow> (Inr (Some sim0), simulation_buttons c s1))"
    unfolding sim0_def s1_def
    by (rule first_visit[of s role "JString n" hook fit]) (use a m in simp_all)
  then have "ent_show_simulation b c s =
      ((case render_simulation sim0 of Inl e \<Rightarrow> Inl e | Inr page \<Rightarrow> Inr (Some sim0)), s2)"
    by (cases "render_simulation sim0") (simp_all add: s2_def)
  moreover have "ent_simulations s2 = ent_simulations s1 \<and> requests s2 = requests s1"
    using m buttons_keep[of c s1] by (cases "render_simulation sim0") (simp_all add: s2_def)
  then have "dict_get (ent_simulations s2) (JString n) = Some sim0"
        and "requests s2 = requests s @ [SimulationRequest (JString n) fit]"
    by (simp_all add: s1_def dict_get_set_same)
  ultimately show "\<exists>sim s1.
             sim = ent_generate_day_simulation (JString n) fit (b (length (requests s))) \<and>
             ent_show_simulation b c s =
               ((case render_simulation sim of Inl e \<Rightarrow> Inl e | Inr page \<Rightarrow> Inr (Some sim)), s1) \<and>
             dict_get (ent_simulations s1) (JString n) = Some sim \<and>
             requests s1 = requests s @ [SimulationRequest (JString n) fit]"
    unfolding sim0_def by blast
next
  fix sim
  assume a: "ent_selected_role s = Some role \<and>
    subscript role (ascii ''role_name'') = Inr (JString n) \<and>
    subscript role (ascii ''one_sentence_hook'') = Inr hook \<and>
    subscript role (ascii ''why_it_fits_this_person'') = Inr fit"
  assume m: "c \<noteq> StartOver \<and> dict_get (ent_simulations s) (JString n) = Some sim"
  define s2 where "s2 = (case render_simulation sim of
                            Inl e \<Rightarrow> s | Inr page \<Rightarrow> simulation_buttons c s)"
  have "ent_show_simulation b c s =
          (case render_simulation sim of
             Inl e \<Rightarrow> (Inl e, s)
           | Inr page \<Rightarrow> (Inr (Some sim), simulation_buttons c s))"
    by (rule cached_visit[of s role "JString n" hook fit]) (use a m in simp_all)
  then have "ent_show_simulation b c s =
      ((case render_simulation sim of Inl e \<Rightarrow> Inl e | Inr page \<Rightarrow> Inr (Some sim)), s2)"
    by (cases "render_simulation sim") (simp_all add: s2_def)
  moreover have "ent_simulations s2 = ent_simulations s \<and> requests s2 = requests s"
    using m buttons_keep[of c s] by (cases "render_simulation sim") (simp_all add: s2_def)
  ultimately show "\<exists>s1. ent_show_simulation b c s =
               ((case render_simulation sim of Inl e \<Rightarrow> Inl e | Inr page \<Rightarrow> Inr (Some sim)), s1) \<and>
             ent_simulations s1 = ent_simulations s \<and> requests s1 = requests s"
    by blast
next
  fix shown s1
  assume a: "ent_selected_role s = Some role \<and>
    subscript role (ascii ''role_name'') = Inr (JString n) \<and>
    subscript role (ascii ''one_sentence_hook'') = Inr hook \<and>
    subscript role (ascii ''why_it_fits_this_person'') = Inr fit"
  assume r: "ent_show_simulation b StartOver s = (Inr shown, s1)"
  have "\<exists>s0. s1 = simulation_buttons StartOver s0"
  proof (cases "dict_get (ent_simulations s) (JString n)")
    case None
    define sim0 where
      "sim0 = ent_generate_day_simulation (JString n) fit (b (length (requests s)))"
    have "ent_show_simulation b StartOver s =
          (case render_simulation sim0 of
             Inl e \<Rightarrow>
               (Inl e, s\<lparr>requests := requests s @ [SimulationRequest (JString n) fit],
                         ent_simulations := dict_set (JString n) sim0 (ent_simulations s)\<rparr>)
           | Inr page \<Rightarrow>
               (Inr (Some sim0),
                simulation_buttons StartOver
                  (s\<lparr>requests := requests s @ [SimulationRequest (JString n) fit],
                     ent_simulations := dict_set (JString n) sim0 (ent_simulations s)\<rparr>)))"
      unfolding sim0_def
      by (rule first_visit[of s role "JString n" hook fit]) (use a None in simp_all)
    with r show ?thesis by (cases "render_simulation sim0") auto
  next
    case (Some sim)
    have "ent_show_simulation b StartOver s =
          (case render_simulation sim of
             Inl e \<Rightarrow> (Inl e, s)
           | Inr page \<Rightarrow> (Inr (Some sim), simulation_buttons StartOver s))"
      by (rule cached_visit[of s role "JString n" hook fit]) (use a Some in simp_all)
    with r show ?thesis by (cases "render_simulation sim") auto
  qed
  then obtain s0 where "s1 = simulation_buttons StartOver s0" by blast
  then show "ent_simulations s1 = []" "ent_role_options s1 = []"
            "ent_selected_role s1 = None" "ent_stage s1 = ''landing''"
    using buttons_start_over[of s0] by simp_all
next
  fix sim
  assume a: "ent_selected_role s = Some role \<and>
    subscript role (ascii ''role_name'') = Inr (JString n) \<and>
    subscript role (ascii ''one_sentence_hook'') = Inr hook \<and>
    subscript role (ascii ''why_it_fits_this_person'') = Inr fit"
  assume m: "dict_get (ent_simulations s) (JString n) = Some sim \<and>
             render_simulation sim = Inr ()"
  have "ent_show_simulation b StartOver s =
          (case render_simulation sim of
             Inl e \<Rightarrow> (Inl e, s)
           | Inr page \<Rightarrow> (Inr (Some sim), simulation_buttons StartOver s))"
    by (rule cached_visit[of s role "JString n" hook fit]) (use a m in simp_all)
  with m show "\<exists>s1. ent_show_simulation b StartOver s = (Inr (Some sim), s1)" by simp
next
  assume "StartOver \<notin> set cs"
  from run_session_invariant[OF this, of s b k]
  show "simulation_requests k (run_session b cs s) \<le> simulation_requests k s + 1"
    by (simp add: pending_def split: if_splits)
next
  fix sim
  assume no: "StartOver \<notin> set cs" and c: "dict_get (ent_simulations s) k = Some sim"
  from run_session_invariant[OF no, of s b k] c
  show "dict_get (ent_simulations (run_session b cs s)) k = Some sim"
    by blast
next
  fix sim
  assume no: "StartOver \<notin> set cs" and c: "dict_get (ent_simulations s) k = Some sim"
  from run_session_invariant[OF no, of s b k] c
  have "dict_get (ent_simulations (run_session b cs s)) k = Some sim"
    and "pending k (run_session b cs s) \<le> pending k s"
    and "simulation_requests k s \<le> simulation_requests k (run_session b cs s)"
    by blast+
  with c show "simulation_requests k (run_session b cs s) = simulation_requests k s"
    by (simp add: pending_def)
qed

theorem simulation_generated_at_most_once_witness:
  "ent_selected_role (run_session (\<lambda>i. Inl ServiceError)
        [StartJourney, ShowRoles (ascii ''Interests: Music''), TryRole 1] initial_session) = Some (fallback_roles ! 0) \<and>
   dict_get (ent_simulations (run_session (\<lambda>i. Inl ServiceError)
        [StartJourney, ShowRoles (ascii ''Interests: Music''), TryRole 1] initial_session)) (JString (ascii ''Assistant Creative Producer'')) = None \<and>
   fst (ent_show_simulation (\<lambda>i. Inl ServiceError) NoClick (run_session (\<lambda>i. Inl ServiceError)
        [StartJourney, ShowRoles (ascii ''Interests: Music''), TryRole 1] initial_session)) = Inr (Some fallback_simulation) \<and>
   dict_get (ent_simulations (snd (ent_show_simulation (\<lambda>i. Inl ServiceError) NoClick (run_session (\<lambda>i. Inl ServiceError)
        [StartJourney, ShowRoles (ascii ''Interests: Music''), TryRole 1] initial_session)))) (JString (ascii ''Assistant Creative Producer''))
     = Some fallback_simulation \<and>
   ent_selected_role (run_session (\<lambda>i. if i = 0 then Inl ServiceError else Inr (ascii ''[\"scene one\", \"scene two\"]''))
        [StartJourney, ShowRoles (ascii ''Interests: Music''), TryRole 1] initial_session) = Some (fallback_roles ! 0) \<and>
   dict_get (ent_simulations (run_session (\<lambda>i. if i = 0 then Inl ServiceError else Inr (ascii ''[\"scene one\", \"scene two\"]''))
        [StartJourney, ShowRoles (ascii ''Interests: Music''), TryRole 1] initial_session)) (JString (ascii ''Assistant Creative Producer'')) = None \<and>
   fst (ent_show_simulation (\<lambda>i. if i = 0 then Inl ServiceError else Inr (ascii ''[\"scene one\", \"scene two\"]'')) NoClick (run_session (\<lambda>i. if i = 0 then Inl ServiceError else Inr (ascii ''[\"scene one\", \"scene two\"]''))
        [StartJourney, ShowRoles (ascii ''Interests: Music''), TryRole 1] initial_session)) = Inl AttributeError \<and>
   dict_get (ent_simulations (snd (ent_show_simulation (\<lambda>i. if i = 0 then Inl ServiceError else Inr (ascii ''[\"scene one\", \"scene two\"]'')) NoClick (run_session (\<lambda>i. if i = 0 then Inl ServiceError else Inr (ascii ''[\"scene one\", \"scene two\"]''))
        [StartJourney, ShowRoles (ascii ''Interests: Music''), TryRole 1] initial_session)))) (JString (ascii ''Assistant Creative Producer''))
     = Some (JDict [(ascii ''scenes'', JList [JString (ascii ''scene one''), JString (ascii ''scene two'')])]) \<and>
   dict_get (ent_simulations (run_session (\<lambda>i. Inl ServiceError)
        [StartJourney, ShowRoles (ascii ''Interests: Music''), TryRole 1, NoClick] initial_session)) (JString (ascii ''Assistant Creative Producer'')) = Some fallback_simulation \<and>
   render_simulation fallback_simulation = Inr () \<and>
   fst (ent_show_simulation (\<lambda>i. Inl ServiceError) StartOver (run_session (\<lambda>i. Inl ServiceError)
        [StartJourney, ShowRoles (ascii ''Interests: Music''), TryRole 1, NoClick] initial_session)) = Inr (Some fallback_simulation) \<and>
   ent_simulations (snd (ent_show_simulation (\<lambda>i. Inl ServiceError) StartOver (run_session (\<lambda>i. Inl ServiceError)
        [StartJourney, ShowRoles (ascii ''Interests: Music''), TryRole 1, NoClick] initial_session))) = [] \<and>
   StartOver \<notin> set [NoClick, TryAnotherRole, TryRole 1, NoClick, NoClick] \<and>
   simulation_requests (JString (ascii ''Assistant Creative Producer'')) (run_session (\<lambda>i. Inl ServiceError) [NoClick, TryAnotherRole, TryRole 1, NoClick, NoClick] (run_session (\<lambda>i. Inl ServiceError)
        [StartJourney, ShowRoles (ascii ''Interests: Music''), TryRole 1] initial_session))
     \<le> simulation_requests (JString (ascii ''Assistant Creative Producer'')) (run_session (\<lambda>i. Inl ServiceError)
        [StartJourney, ShowRoles (ascii ''Interests: Music''), TryRole 1] initial_session) + 1"
proof -
  let ?b = "(\<lambda>i. Inl ServiceError) :: bedrock"
  let ?b2 = "(\<lambda>i. if i = 0 then Inl ServiceError else Inr (ascii ''[\"scene one\", \"scene two\"]'')) :: bedrock"
  let ?s = "(run_session (\<lambda>i. Inl ServiceError)
        [StartJourney, ShowRoles (ascii ''Interests: Music''), TryRole 1] initial_session)"
  let ?s2 = "(run_session (\<lambda>i. Inl ServiceError)
        [StartJourney, ShowRoles (ascii ''Interests: Music''), TryRole 1, NoClick] initial_session)"
  let ?sb = "(run_session (\<lambda>i. if i = 0 then Inl ServiceError else Inr (ascii ''[\"scene one\", \"scene two\"]''))
        [StartJourney, ShowRoles (ascii ''Interests: Music''), TryRole 1] initial_session)"
  let ?n = "ascii ''Assistant Creative Producer''"
  let ?hook = "JString (ascii ''You turn ideas and chaos into an actual show.'')"
  let ?fit = "JString (ascii ''You enjoy planning, working with others, and being near the action.'')"
  let ?bad = "(JDict [(ascii ''scenes'', JList [JString (ascii ''scene one''), JString (ascii ''scene two'')])])"
  let ?cs = "[NoClick, TryAnotherRole, TryRole 1, NoClick, NoClick]"
  have h1: "ent_selected_role ?s = Some (fallback_roles ! 0)" by code_simp
  have h1b: "ent_selected_role ?sb = Some (fallback_roles ! 0)" by code_simp
  have h1c: "ent_selected_role ?s2 = Some (fallback_roles ! 0)" by code_simp
  have h2: "subscript (fallback_roles ! 0) (ascii ''role_name'') = Inr (JString ?n)" by code_simp
  have h3: "subscript (fallback_roles ! 0) (ascii ''one_sentence_hook'') = Inr ?hook" by code_simp
  have h4: "subscript (fallback_roles ! 0) (ascii ''why_it_fits_this_person'') = Inr ?fit"
    by code_simp
  have h5: "dict_get (ent_simulations ?s) (JString ?n) = None" by code_simp
  have h5b: "dict_get (ent_simulations ?sb) (JString ?n) = None" by code_simp
  have h5c: "dict_get (ent_simulations ?s2) (JString ?n) = Some fallback_simulation" by code_simp
  have h6: "StartOver \<notin> set ?cs" by simp
  have h7: "NoClick \<noteq> StartOver" by simp
  have g: "ent_generate_day_simulation (JString ?n) ?fit (?b (length (requests ?s)))
             = fallback_simulation"
    by (simp add: ent_generate_day_simulation_def simulation_try_def)
  have gb: "ent_generate_day_simulation (JString ?n) ?fit (?b2 (length (requests ?sb))) = ?bad"
    by code_simp
  have r: "render_simulation fallback_simulation = Inr ()" by code_simp
  have rb: "render_simulation ?bad = Inl AttributeError" by code_simp
  note t = simulation_generated_at_most_once
             [of ?s "fallback_roles ! 0" ?n ?hook ?fit NoClick ?b ?cs "JString ?n"]
  note tb = simulation_generated_at_most_once
             [of ?sb "fallback_roles ! 0" ?n ?hook ?fit NoClick ?b2 ?cs "JString ?n"]
  note tc = simulation_generated_at_most_once
             [of ?s2 "fallback_roles ! 0" ?n ?hook ?fit NoClick ?b ?cs "JString ?n"]
  from t h1 h2 h3 h4 h5 h7 obtain sim s1 where a:
      "sim = ent_generate_day_simulation (JString ?n) ?fit (?b (length (requests ?s)))"
      "ent_show_simulation ?b NoClick ?s =
         ((case render_simulation sim of Inl e \<Rightarrow> Inl e | Inr page \<Rightarrow> Inr (Some sim)), s1)"
      "dict_get (ent_simulations s1) (JString ?n) = Some sim"
    by blast
  from a g r have a3: "fst (ent_show_simulation ?b NoClick ?s) = Inr (Some fallback_simulation)"
    and a4: "dict_get (ent_simulations (snd (ent_show_simulation ?b NoClick ?s))) (JString ?n)
              = Some fallback_simulation"
    by simp_all
  from tb h1b h2 h3 h4 h5b h7 obtain simb s1b where b:
      "simb = ent_generate_day_simulation (JString ?n) ?fit (?b2 (length (requests ?sb)))"
      "ent_show_simulation ?b2 NoClick ?sb =
         ((case render_simulation simb of Inl e \<Rightarrow> Inl e | Inr page \<Rightarrow> Inr (Some simb)), s1b)"
      "dict_get (ent_simulations s1b) (JString ?n) = Some simb"
    by blast
  from b gb rb have b3: "fst (ent_show_simulation ?b2 NoClick ?sb) = Inl AttributeError"
    and b4: "dict_get (ent_simulations (snd (ent_show_simulation ?b2 NoClick ?sb))) (JString ?n)
              = Some ?bad"
    by simp_all
  from tc h1c h2 h3 h4 h5c r obtain s1c where c:
      "ent_show_simulation ?b StartOver ?s2 = (Inr (Some fallback_simulation), s1c)"
    by blast
  from tc h1c h2 h3 h4 c have "ent_simulations s1c = []" by blast
  with c have c3: "fst (ent_show_simulation ?b StartOver ?s2) = Inr (Some fallback_simulation)"
    and c4: "ent_simulations (snd (ent_show_simulation ?b StartOver ?s2)) = []"
    by simp_all
  from t h6 have d:
    "simulation_requests (JString ?n) (run_session ?b ?cs ?s)
       \<le> simulation_requests (JString ?n) ?s + 1"
    by blast
  from h1 h5 a3 a4 h1b h5b b3 b4 h5c r c3 c4 h6 d show ?thesis by blast
qed

text \<open>
  C6: when the model call fails, the answer cannot be parsed, or the parsed list is
  empty, \<open>ent_generate_role_options_from_ai\<close> returns the fixed fallback list; that list
  has exactly three entries, each with a non-empty \<open>role_name\<close>, \<open>one_sentence_hook\<close> and
  \<open>why_it_fits_this_person\<close>.
\<close>

theorem role_options_fallback_three_entries:
  "(response = Inl e \<longrightarrow>
      ent_generate_role_options_from_ai profile response = fallback_roles) \<and>
   (response = Inr raw \<and> safe_json_from_model raw = Inl e \<longrightarrow>
      ent_generate_role_options_from_ai profile response = fallback_roles) \<and>
   (response = Inr raw \<and> safe_json_from_model raw = Inr (JList []) \<longrightarrow>
      ent_generate_role_options_from_ai profile response = fallback_roles) \<and>
   length fallback_roles = 3 \<and>
   list_all (\<lambda>role. field_nonempty role (ascii ''role_name'') \<and>
                     field_nonempty role (ascii ''one_sentence_hook'') \<and>
                     field_nonempty role (ascii ''why_it_fits_this_person''))
            fallback_roles"
proof (intro conjI impI)
  assume "response = Inl e"
  then show "ent_generate_role_options_from_ai profile response = fallback_roles"
    by (simp add: ent_generate_role_options_from_ai_def roles_try_def)
next
  assume "response = Inr raw \<and> safe_json_from_model raw = Inl e"
  then show "ent_generate_role_options_from_ai profile response = fallback_roles"
    by (simp add: ent_generate_role_options_from_ai_def roles_try_def)
next
  assume "response = Inr raw \<and> safe_json_from_model raw = Inr (JList [])"
  then show "ent_generate_role_options_from_ai profile response = fallback_roles"
    by (simp add: ent_generate_role_options_from_ai_def roles_try_def)
next
  show "length fallback_roles = 3" by (simp add: fallback_roles_def)
next
  show "list_all (\<lambda>role. field_nonempty role (ascii ''role_name'') \<and>
                     field_nonempty role (ascii ''one_sentence_hook'') \<and>
                     field_nonempty role (ascii ''why_it_fits_this_person''))
            fallback_roles"
    by code_simp
qed

theorem role_options_fallback_three_entries_witness:
  "safe_json_from_model (ascii ''Sure! Here you go: []'') = Inr (JList []) \<and>
   ent_generate_role_options_from_ai (ascii ''Interests: Music'')
     (Inr (ascii ''Sure! Here you go: []'')) = fallback_roles \<and>
   ent_generate_role_options_from_ai (ascii ''Interests: Music'') (Inl ServiceError)
     = fallback_roles"
proof -
  have h: "safe_json_from_model (ascii ''Sure! Here you go: []'') = Inr (JList [])"
    by code_simp
  from role_options_fallback_three_entries
         [of "Inr (ascii ''Sure! Here you go: []'')" ServiceError "ascii ''Interests: Music''"
             "ascii ''Sure! Here you go: []''"] h
  have a: "ent_generate_role_options_from_ai (ascii ''Interests: Music'')
     (Inr (ascii ''Sure! Here you go: []'')) = fallback_roles" by blast
  from role_options_fallback_three_entries
         [of "Inl ServiceError" ServiceError "ascii ''Interests: Music''"]
  have b: "ent_generate_role_options_from_ai (ascii ''Interests: Music'') (Inl ServiceError)
     = fallback_roles" by blast
  from h a b show ?thesis by blast
qed

section \<open>Properties of the Spark Discovery Hub\<close>

text \<open>
  C5: whenever the \<open>try\<close> block of \<open>call_identity_ai\<close> fails, the function returns
  (it has no failing step for integer sliders) a result with exactly one archetype,
  named \<open>Vibe Curator in Progress\<close> when the chaos slider is at least 7,
  \<open>Vision Architect in Progress\<close> when it is at most 3 and \<open>Emerging Creator\<close>
  otherwise; an environment summary that is the non-empty base text followed by the
  team sentence when \<open>solo_team\<close> is at least 7 and by the quiet sentence when it is
  at most 3; and two suggested roles. The statement holds for all integers, in
  particular for the slider range 0 to 10.
\<close>

theorem identity_fallback_one_archetype:
  "(identity_try response = Inl e \<longrightarrow>
     (\<exists>tagline description spaces r1 r2.
        call_identity_ai identity response =
          JDict
            [(ascii ''spark_archetypes'',
                JList
                  [JDict
                     [(ascii ''name'',
                         JString
                           (if 7 \<le> sliders_get identity (ascii ''chaos_structure'')
                            then ascii ''Vibe Curator in Progress''
                            else if sliders_get identity (ascii ''chaos_structure'') \<le> 3
                            then ascii ''Vision Architect in Progress''
                            else ascii ''Emerging Creator'')),
                      (ascii ''tagline'', tagline),
                      (ascii ''description'', description)]]),
             (ascii ''creative_environment'',
                JDict
                  [(ascii ''summary'',
                      JString
                        (env_summary_base @
                         (if 7 \<le> sliders_get identity (ascii ''solo_team'') then team_sentence
                          else if sliders_get identity (ascii ''solo_team'') \<le> 3
                          then quiet_sentence
                          else []))),
                   (ascii ''example_spaces'', spaces)]),
             (ascii ''suggested_roles'', JList [r1, r2])] \<and>
        field_nonempty r1 (ascii ''role_name'') \<and>
        field_nonempty r2 (ascii ''role_name''))) \<and>
   env_summary_base \<noteq> [] \<and>
   py_contains (ascii ''team'') team_sentence \<and>
   py_contains (ascii ''quiet'') quiet_sentence"
proof (intro conjI impI)
  assume f: "identity_try response = Inl e"
  have k: "ascii ''tagline'' \<noteq> ascii ''name''" "ascii ''name'' \<noteq> ascii ''tagline''"
    by (simp_all add: ascii_def)
  have r1: "field_nonempty
      (JDict [(ascii ''role_name'', JString (ascii ''Content Assistant / Editor-in-training'')),
              (ascii ''why_it_fits'', w1)]) (ascii ''role_name'')" for w1
    by (simp add: field_nonempty_def dict_get_def ascii_def)
  have r2: "field_nonempty
      (JDict [(ascii ''role_name'', JString (ascii ''Production Helper on small shoots'')),
              (ascii ''why_it_fits'', w2)]) (ascii ''role_name'')" for w2
    by (simp add: field_nonempty_def dict_get_def ascii_def)
  consider (hi) "7 \<le> sliders_get identity (ascii ''chaos_structure'')"
    | (lo) "sliders_get identity (ascii ''chaos_structure'') \<le> 3"
    | (mid) "\<not> 7 \<le> sliders_get identity (ascii ''chaos_structure'')"
            "\<not> sliders_get identity (ascii ''chaos_structure'') \<le> 3"
    by blast
  then show "\<exists>tagline description spaces r1 r2.
        call_identity_ai identity response =
          JDict
            [(ascii ''spark_archetypes'',
                JList
                  [JDict
                     [(ascii ''name'',
                         JString
                           (if 7 \<le> sliders_get identity (ascii ''chaos_structure'')
                            then ascii ''Vibe Curator in Progress''
                            else if sliders_get identity (ascii ''chaos_structure'') \<le> 3
                            then ascii ''Vision Architect in Progress''
                            else ascii ''Emerging Creator'')),
                      (ascii ''tagline'', tagline),
                      (ascii ''description'', description)]]),
             (ascii ''creative_environment'',
                JDict
                  [(ascii ''summary'',
                      JString
                        (env_summary_base @
                         (if 7 \<le> sliders_get identity (ascii ''solo_team'') then team_sentence
                          else if sliders_get identity (ascii ''solo_team'') \<le> 3
                          then quiet_sentence
                          else []))),
                   (ascii ''example_spaces'', spaces)]),
             (ascii ''suggested_roles'', JList [r1, r2])] \<and>
        field_nonempty r1 (ascii ''role_name'') \<and>
        field_nonempty r2 (ascii ''role_name'')"
  proof cases
    case hi
    with f k r1 r2 show ?thesis
      by (simp add: call_identity_ai_def identity_fallback_def Let_def)
  next
    case lo
    with f k r1 r2 show ?thesis
      by (simp add: call_identity_ai_def identity_fallback_def Let_def)
  next
    case mid
    with f k r1 r2 show ?thesis
      by (simp add: call_identity_ai_def identity_fallback_def Let_def)
  qed
next
  show "env_summary_base \<noteq> []" by (simp add: env_summary_base_def ascii_def)
next
  show "py_contains (ascii ''team'') team_sentence" by code_simp
next
  show "py_contains (ascii ''quiet'') quiet_sentence" by code_simp
qed

theorem identity_fallback_one_archetype_witness:
  "identity_try (Inr (ascii ''I cannot answer that.'')) =
     Inl (ValueError ''Could not extract JSON from model output.'') \<and>
   (\<exists>tagline description spaces r1 r2.
      call_identity_ai
        \<lparr>answers = [],
         sliders = Some [(ascii ''chaos_structure'', 8), (ascii ''solo_team'', 2)]\<rparr>
        (Inr (ascii ''I cannot answer that.'')) =
        JDict
          [(ascii ''spark_archetypes'',
              JList
                [JDict
                   [(ascii ''name'', JString (ascii ''Vibe Curator in Progress'')),
                    (ascii ''tagline'', tagline),
                    (ascii ''description'', description)]]),
           (ascii ''creative_environment'',
              JDict
                [(ascii ''summary'', JString (env_summary_base @ quiet_sentence)),
                 (ascii ''example_spaces'', spaces)]),
           (ascii ''suggested_roles'', JList [r1, r2])])"
proof -
  let ?d = "\<lparr>answers = [],
         sliders = Some [(ascii ''chaos_structure'', 8), (ascii ''solo_team'', 2)]\<rparr>"
  have h: "identity_try (Inr (ascii ''I cannot answer that.'')) =
     Inl (ValueError ''Could not extract JSON from model output.'')" by code_simp
  have c: "sliders_get ?d (ascii ''chaos_structure'') = 8" by code_simp
  have t: "sliders_get ?d (ascii ''solo_team'') = 2" by code_simp
  from identity_fallback_one_archetype
         [of "Inr (ascii ''I cannot answer that.'')"
             "ValueError ''Could not extract JSON from model output.''" ?d] h
  show ?thesis unfolding c t by (simp del: One_nat_def) blast
qed

text \<open>
  C8, as the code has it: a Confidence Lab submission whose weakness lines are all
  blank, with no barrier selected and a blank extra barrier, shows the validation
  warning and does not call \<open>call_confidence_ai\<close>; \<open>confidence_result\<close> and the
  Identity Lab entries keep their values, and \<open>confidence_raw\<close> is overwritten with the
  empty submission.
\<close>

theorem empty_confidence_submission_warns:
  "(\<forall>w \<in> set (py_split [0x0A] weaknesses_text). py_strip w = []) \<and>
   py_strip extra_barrier_text = [] \<longrightarrow>
   conf_boost lower response weaknesses_text [] extra_barrier_text s =
     ([Warning confidence_warning],
      0,
      s\<lparr>confidence_raw := Some \<lparr>weaknesses = [], barriers = [], extra_barrier = None\<rparr>\<rparr>)"
proof
  assume a: "(\<forall>w \<in> set (py_split [0x0A] weaknesses_text). py_strip w = []) \<and>
   py_strip extra_barrier_text = []"
  then have "filter (\<lambda>w. py_strip w \<noteq> []) (py_split [0x0A] weaknesses_text) = []"
    by (simp add: filter_empty_conv)
  with a show "conf_boost lower response weaknesses_text [] extra_barrier_text s =
     ([Warning confidence_warning],
      0,
      s\<lparr>confidence_raw := Some \<lparr>weaknesses = [], barriers = [], extra_barrier = None\<rparr>\<rparr>)"
    by (simp add: conf_boost_def Let_def)
qed

theorem empty_confidence_submission_warns_witness:
  "list_all (\<lambda>w. py_strip w = []) (py_split [0x0A] (ascii ''  '' @ [0x0A] @ ascii '' '')) \<and>
   py_strip (ascii ''   '') = [] \<and>
   conf_boost (\<lambda>w. w) (Inl ServiceError) (ascii ''  '' @ [0x0A] @ ascii '' '') [] (ascii ''   '')
     \<lparr>identity_raw = None, identity_result = None,
      confidence_raw = Some \<lparr>weaknesses = [ascii ''I am shy''], barriers = [], extra_barrier = None\<rparr>,
      confidence_result = Some (JDict [])\<rparr> =
     ([Warning confidence_warning],
      0,
      \<lparr>identity_raw = None, identity_result = None,
       confidence_raw = Some \<lparr>weaknesses = [], barriers = [], extra_barrier = None\<rparr>,
       confidence_result = Some (JDict [])\<rparr>)"
proof -
  have h0: "list_all (\<lambda>w. py_strip w = []) (py_split [0x0A] (ascii ''  '' @ [0x0A] @ ascii '' ''))"
    by code_simp
  then have h1: "\<forall>w \<in> set (py_split [0x0A] (ascii ''  '' @ [0x0A] @ ascii '' '')). py_strip w = []"
    by (simp add: list_all_iff)
  have h2: "py_strip (ascii ''   '') = []" by code_simp
  from empty_confidence_submission_warns
         [of "ascii ''  '' @ [0x0A] @ ascii '' ''" "ascii ''   ''" "\<lambda>w. w" "Inl ServiceError"
             "\<lparr>identity_raw = None, identity_result = None,
      confidence_raw = Some \<lparr>weaknesses = [ascii ''I am shy''], barriers = [], extra_barrier = None\<rparr>,
      confidence_result = Some (JDict [])\<rparr>"] h1 h2
  have "conf_boost (\<lambda>w. w) (Inl ServiceError) (ascii ''  '' @ [0x0A] @ ascii '' '') [] (ascii ''   '')
     \<lparr>identity_raw = None, identity_result = None,
      confidence_raw = Some \<lparr>weaknesses = [ascii ''I am shy''], barriers = [], extra_barrier = None\<rparr>,
      confidence_result = Some (JDict [])\<rparr> =
     ([Warning confidence_warning],
      0,
      \<lparr>identity_raw = None, identity_result = None,
       confidence_raw = Some \<lparr>weaknesses = [], barriers = [], extra_barrier = None\<rparr>,
       confidence_result = Some (JDict [])\<rparr>)"
    by simp
  with h0 h2 show ?thesis by blast
qed

theorem empty_confidence_submission_counterexample:
  "snd (snd (conf_boost (\<lambda>w. w) (Inl ServiceError) [] [] []
       \<lparr>identity_raw = None, identity_result = None,
        confidence_raw = None, confidence_result = None\<rparr>))
     \<noteq> \<lparr>identity_raw = None, identity_result = None,
         confidence_raw = None, confidence_result = None\<rparr>"
  by (simp add: conf_boost_def Let_def)

section \<open>Properties of the voice pipeline\<close>

text \<open>
  C3: the module binds \<open>REGION\<close> and \<open>BEDROCK_REGION\<close> and never binds
  \<open>AWS_REGION\<close>; started in any namespace without that name (the built-in names do
  not include it), its evaluation stops with \<open>NameError\<close> for \<open>AWS_REGION\<close> at the
  first client construction, so no client is produced.
\<close>

theorem module_fails_with_undefined_AWS_REGION:
  "''AWS_REGION'' \<notin> set (map binds voice_pipeline_module) \<and>
   ''REGION'' \<in> set (map binds voice_pipeline_module) \<and>
   ''BEDROCK_REGION'' \<in> set (map binds voice_pipeline_module) \<and>
   (g ''AWS_REGION'' = None \<longrightarrow>
      exec_all voice_pipeline_module g = Inl (NameError ''AWS_REGION''))"
proof (intro conjI impI)
  show "''AWS_REGION'' \<notin> set (map binds voice_pipeline_module)"
    by (simp add: voice_pipeline_module_def)
next
  show "''REGION'' \<in> set (map binds voice_pipeline_module)"
    by (simp add: voice_pipeline_module_def)
next
  show "''BEDROCK_REGION'' \<in> set (map binds voice_pipeline_module)"
    by (simp add: voice_pipeline_module_def)
next
  assume "g ''AWS_REGION'' = None"
  then show "exec_all voice_pipeline_module g = Inl (NameError ''AWS_REGION'')"
    by (simp add: voice_pipeline_module_def)
qed

theorem module_fails_with_undefined_AWS_REGION_witness:
  "(Map.empty :: namespace) ''AWS_REGION'' = None \<and>
   exec_all voice_pipeline_module Map.empty = Inl (NameError ''AWS_REGION'')"
proof -
  have h: "(Map.empty :: namespace) ''AWS_REGION'' = None" by simp
  from module_fails_with_undefined_AWS_REGION[of Map.empty] h show ?thesis by blast
qed

text \<open>
  C1, what the code does: a file of 1000 frames at 16000 frames per second lasts
  0.0625 seconds and the duration check raises the ``too short'' error, but the
  enclosing \<open>except Exception\<close> catches it. \<open>transcribe_audio\<close> does not depend on the
  header at all: it uploads the file and starts the transcription job in every case.
\<close>

theorem short_audio_is_not_rejected:
  "duration_try (Some \<lparr>nframes = 1000, framerate = 16000\<rparr>) = Inl too_short \<and>
   duration_guard (Some \<lparr>nframes = 1000, framerate = 16000\<rparr>) = None \<and>
   transcribe_audio (env\<lparr>wav := header\<rparr>) = transcribe_audio env \<and>
   take 2 (fst (transcribe_audio env)) = [S3Upload, StartTranscriptionJob] \<and>
   transcribe_audio
     \<lparr>wav = Some \<lparr>nframes = 1000, framerate = 16000\<rparr>,
      job_statuses = [''IN_PROGRESS'', ''COMPLETED''],
      transcript_object =
        ascii ''{\"results\": {\"transcripts\": [{\"transcript\": \" hello \"}]}}''\<rparr>
     = ([S3Upload, StartTranscriptionJob, GetTranscriptionJob, GetTranscriptionJob, S3GetObject],
        Some (Inr (ascii ''hello'')))"
proof (intro conjI)
  show a: "duration_try (Some \<lparr>nframes = 1000, framerate = 16000\<rparr>) = Inl too_short"
    by (simp add: duration_try_def get_wav_duration_seconds_def)
  then show "duration_guard (Some \<lparr>nframes = 1000, framerate = 16000\<rparr>) = None"
    by (simp add: duration_guard_def)
next
  show "transcribe_audio (env\<lparr>wav := header\<rparr>) = transcribe_audio env"
    by (simp add: transcribe_audio_def Let_def split: option.splits prod.splits)
next
  show "take 2 (fst (transcribe_audio env)) = [S3Upload, StartTranscriptionJob]"
    by (simp add: transcribe_audio_def Let_def split: option.splits prod.splits)
next
  have r: "read_transcript
      (ascii ''{\"results\": {\"transcripts\": [{\"transcript\": \" hello \"}]}}'')
      = Inr (ascii ''hello'')" by code_simp
  have p: "poll [''IN_PROGRESS'', ''COMPLETED''] = Some (2, ''COMPLETED'')" by simp
  show "transcribe_audio
     \<lparr>wav = Some \<lparr>nframes = 1000, framerate = 16000\<rparr>,
      job_statuses = [''IN_PROGRESS'', ''COMPLETED''],
      transcript_object =
        ascii ''{\"results\": {\"transcripts\": [{\"transcript\": \" hello \"}]}}''\<rparr>
     = ([S3Upload, StartTranscriptionJob, GetTranscriptionJob, GetTranscriptionJob, S3GetObject],
        Some (Inr (ascii ''hello'')))"
    by (simp add: transcribe_audio_def Let_def r p numeral_2_eq_2 del: poll.simps)
qed


lemma cons_cp_Inr: "cons_cp c r = Inr x \<longleftrightarrow> (\<exists>t. r = Inr t \<and> x = c # t)"
  by (cases r) (auto simp: cons_cp_def)

lemma utf8_decode_append:
  "utf8_decode a = Inr x \<Longrightarrow> utf8_decode b = Inr y \<Longrightarrow> utf8_decode (a @ b) = Inr (x @ y)"
proof (induction "length a" arbitrary: a x rule: less_induct)
  case less
  show ?case
  proof (cases a)
    case Nil
    with less.prems show ?thesis by simp
  next
    case (Cons b0 bs)
    note a = Cons
    consider (one) "b0 < 0x80"
      | (two) "\<not> b0 < 0x80" "0xC2 \<le> b0 \<and> b0 \<le> 0xDF"
      | (three) "\<not> b0 < 0x80" "\<not> (0xC2 \<le> b0 \<and> b0 \<le> 0xDF)" "0xE0 \<le> b0 \<and> b0 \<le> 0xEF"
      | (four) "\<not> b0 < 0x80" "\<not> (0xC2 \<le> b0 \<and> b0 \<le> 0xDF)" "\<not> (0xE0 \<le> b0 \<and> b0 \<le> 0xEF)"
               "0xF0 \<le> b0 \<and> b0 \<le> 0xF4"
      | (bad) "\<not> b0 < 0x80" "\<not> (0xC2 \<le> b0 \<and> b0 \<le> 0xDF)" "\<not> (0xE0 \<le> b0 \<and> b0 \<le> 0xEF)"
               "\<not> (0xF0 \<le> b0 \<and> b0 \<le> 0xF4)"
      by blast
    then show ?thesis
    proof cases
      case one
      with less.prems(1) a obtain t where t: "utf8_decode bs = Inr t" "x = uint b0 # t"
        by (auto simp: cons_cp_Inr)
      have "utf8_decode (bs @ b) = Inr (t @ y)"
        using less.hyps[of bs t] a t(1) less.prems(2) by simp
      with one a t show ?thesis by (simp add: cons_cp_def)
    next
      case two
      with less.prems(1) a obtain b1 r t where r: "bs = b1 # r" "is_cont b1"
          "utf8_decode r = Inr t" "x = ((uint b0 - 0xC0) * 64 + cont_bits b1) # t"
        by (cases bs) (auto simp: cons_cp_Inr split: if_splits)
      have ih: "utf8_decode (r @ b) = Inr (t @ y)"
        using less.hyps[of r t] a r less.prems(2) by simp
      from two have f: "(b0 < 0x80) = False" "(0xC2 \<le> b0 \<and> b0 \<le> 0xDF) = True"
        by auto
      have "utf8_decode (b0 # b1 # (r @ b)) = Inr (x @ y)"
        by (subst utf8_decode.simps(2)) (simp add: f r ih cons_cp_def del: utf8_decode.simps)
      with a r show ?thesis by simp
    next
      case three
      from three less.prems(1) a obtain b1 bs1 where b1: "bs = b1 # bs1"
        by (cases bs) auto
      from three less.prems(1) a b1 obtain b2 r where b2: "bs1 = b2 # r"
        by (cases bs1) auto
      from three less.prems(1) a b1 b2 obtain t where r:
          "second_ok3 b0 b1" "is_cont b2" "utf8_decode r = Inr t"
          "x = (((uint b0 - 0xE0) * 64 + cont_bits b1) * 64 + cont_bits b2) # t"
        by (auto simp: cons_cp_Inr split: if_splits)
      have ih: "utf8_decode (r @ b) = Inr (t @ y)"
        using less.hyps[of r t] a b1 b2 r less.prems(2) by simp
      from three have f: "(b0 < 0x80) = False" "(0xC2 \<le> b0 \<and> b0 \<le> 0xDF) = False"
          "(0xE0 \<le> b0 \<and> b0 \<le> 0xEF) = True"
        by auto
      have "utf8_decode (b0 # b1 # b2 # (r @ b)) = Inr (x @ y)"
        by (subst utf8_decode.simps(2)) (simp add: f r ih cons_cp_def del: utf8_decode.simps)
      with a b1 b2 show ?thesis by simp
    next
      case four
      from four less.prems(1) a obtain b1 bs1 where b1: "bs = b1 # bs1"
        by (cases bs) auto
      from four less.prems(1) a b1 obtain b2 bs2 where b2: "bs1 = b2 # bs2"
        by (cases bs1) auto
      from four less.prems(1) a b1 b2 obtain b3 r where b3: "bs2 = b3 # r"
        by (cases bs2) auto
      from four less.prems(1) a b1 b2 b3 obtain t where r:
          "second_ok4 b0 b1" "is_cont b2" "is_cont b3" "utf8_decode r = Inr t"
          "x = ((((uint b0 - 0xF0) * 64 + cont_bits b1) * 64 + cont_bits b2) * 64
                             + cont_bits b3) # t"
        by (auto simp: cons_cp_Inr split: if_splits)
      have ih: "utf8_decode (r @ b) = Inr (t @ y)"
        using less.hyps[of r t] a b1 b2 b3 r less.prems(2) by simp
      from four have f: "(b0 < 0x80) = False" "(0xC2 \<le> b0 \<and> b0 \<le> 0xDF) = False"
          "(0xE0 \<le> b0 \<and> b0 \<le> 0xEF) = False" "(0xF0 \<le> b0 \<and> b0 \<le> 0xF4) = True"
        by auto
      have "utf8_decode (b0 # b1 # b2 # b3 # (r @ b)) = Inr (x @ y)"
        by (subst utf8_decode.simps(2)) (simp add: f r ih cons_cp_def del: utf8_decode.simps)
      with a b1 b2 b3 show ?thesis by simp
    next
      case bad
      with less.prems(1) a show ?thesis by simp
    qed
  qed
qed

lemma collect_decodes_stream:
  "collect events acc = Inr t \<Longrightarrow>
     \<exists>u. utf8_decode (stream_bytes events) = Inr u \<and> t = acc @ u"
proof (induction events acc arbitrary: t rule: collect.induct)
  case (1 completion_text)
  then show ?case by simp
next
  case (2 events completion_text)
  then show ?case by simp
next
  case (3 events completion_text)
  then show ?case by simp
next
  case (4 bytes_data events completion_text)
  show ?case
  proof (cases "bytes_data = []")
    case True
    with "4.prems" "4.IH"(1) show ?thesis by simp
  next
    case False
    with "4.prems" obtain d where d: "utf8_decode bytes_data = Inr d"
        and c: "collect events (completion_text @ d) = Inr t"
      by (cases "utf8_decode bytes_data") auto
    from "4.IH"(2)[OF False d c] obtain u where
        u: "utf8_decode (stream_bytes events) = Inr u" "t = (completion_text @ d) @ u"
      by blast
    from utf8_decode_append[OF d u(1)] u(2) show ?thesis by simp
  qed
qed

lemma fixed_replies_not_empty: "didnt_catch \<noteq> []" "no_reply \<noteq> []"
  by (simp_all add: didnt_catch_def no_reply_def ascii_def)


lemma chunks_decode_collect:
  "chunks_decode events \<Longrightarrow> \<exists>t. collect events acc = Inr t"
proof (induction events acc rule: collect.induct)
  case (1 completion_text)
  show ?case by simp
next
  case (2 events completion_text)
  then show ?case by simp
next
  case (3 events completion_text)
  then show ?case by simp
next
  case (4 bytes_data events completion_text)
  from "4.prems" obtain d where d: "utf8_decode bytes_data = Inr d"
      and r: "chunks_decode events"
    by (cases "utf8_decode bytes_data") auto
  show ?case
  proof (cases "bytes_data = []")
    case True
    with "4.IH"(1) r show ?thesis by simp
  next
    case False
    from "4.IH"(2)[OF False d r] False d show ?thesis by simp
  qed
qed

lemma collect_whole_stream:
  assumes "chunks_decode events" and "utf8_decode (stream_bytes events) = Inr u"
  shows "collect events [] = Inr u"
proof -
  from chunks_decode_collect[OF assms(1)] obtain t where t: "collect events [] = Inr t"
    by blast
  from collect_decodes_stream[OF t] assms(2) have "t = u" by simp
  with t show ?thesis by simp
qed

text \<open>
  C9, as amended: \<open>call_master_agent\<close> never returns the empty string. For an empty input
  text it returns the fixed request to repeat and the agent is not invoked. For an event
  stream in which every chunk is by itself well-formed UTF-8, and whose concatenated
  chunk bytes decode to a text that strips to the empty string, it returns the fixed
  ``could not generate a reply'' message.
\<close>

theorem call_master_agent_never_returns_empty:
  "snd (call_master_agent invoke_agent user_text session_id) \<noteq> Inr [] \<and>
   call_master_agent invoke_agent [] session_id = (0, Inr didnt_catch) \<and>
   (user_text \<noteq> [] \<and> invoke_agent session_id user_text = Inr response \<and>
    events = (case response of None \<Rightarrow> [] | Some events \<Rightarrow> events) \<and>
    chunks_decode events \<and>
    utf8_decode (stream_bytes events) = Inr completion_text \<and>
    py_strip completion_text = [] \<longrightarrow>
      call_master_agent invoke_agent user_text session_id = (1, Inr no_reply))"
proof (intro conjI impI)
  show "snd (call_master_agent invoke_agent user_text session_id) \<noteq> Inr []"
    using fixed_replies_not_empty
    by (simp add: call_master_agent_def split: sum.splits)
next
  show "call_master_agent invoke_agent [] session_id = (0, Inr didnt_catch)"
    by (simp add: call_master_agent_def)
next
  assume a: "user_text \<noteq> [] \<and> invoke_agent session_id user_text = Inr response \<and>
    events = (case response of None \<Rightarrow> [] | Some events \<Rightarrow> events) \<and>
    chunks_decode events \<and>
    utf8_decode (stream_bytes events) = Inr completion_text \<and>
    py_strip completion_text = []"
  then have "collect events [] = Inr completion_text"
    using collect_whole_stream[of events completion_text] by blast
  with a have "collect (case response of None \<Rightarrow> [] | Some events \<Rightarrow> events) []
                 = Inr completion_text"
    by simp
  with a show "call_master_agent invoke_agent user_text session_id = (1, Inr no_reply)"
    by (simp add: call_master_agent_def)
qed

theorem call_master_agent_never_returns_empty_witness:
  "ascii ''hello'' \<noteq> [] \<and>
   chunks_decode [Event (Some (Chunk (Some [0x20, 0xC2, 0xA0]))), Event None,
                  Event (Some (Chunk (Some [0x0A])))] \<and>
   utf8_decode (stream_bytes [Event (Some (Chunk (Some [0x20, 0xC2, 0xA0]))), Event None,
                              Event (Some (Chunk (Some [0x0A])))]) = Inr [0x20, 0xA0, 0x0A] \<and>
   py_strip [0x20, 0xA0, 0x0A] = [] \<and>
   call_master_agent
     (\<lambda>sid t. Inr (Some [Event (Some (Chunk (Some [0x20, 0xC2, 0xA0]))), Event None,
                           Event (Some (Chunk (Some [0x0A])))]))
     (ascii ''hello'') (ascii ''session-1'') = (1, Inr no_reply)"
proof -
  let ?events = "[Event (Some (Chunk (Some [0x20, 0xC2, 0xA0]))), Event None,
            Event (Some (Chunk (Some [0x0A])))]"
  have h1: "ascii ''hello'' \<noteq> []" by (simp add: ascii_def)
  have h2: "chunks_decode ?events" by code_simp
  have h3: "utf8_decode (stream_bytes ?events) = Inr [0x20, 0xA0, 0x0A]" by code_simp
  have h4: "py_strip [0x20, 0xA0, 0x0A] = []" by code_simp
  from call_master_agent_never_returns_empty
         [of "\<lambda>sid t. Inr (Some ?events)" "ascii ''hello''" "ascii ''session-1''"
             "Some ?events" ?events "[0x20, 0xA0, 0x0A]"] h1 h2 h3 h4
  have "call_master_agent (\<lambda>sid t. Inr (Some ?events)) (ascii ''hello'') (ascii ''session-1'')
          = (1, Inr no_reply)"
    by simp
  with h1 h2 h3 h4 show ?thesis by blast
qed

theorem call_master_agent_split_character_counterexample:
  "utf8_decode (stream_bytes [Event (Some (Chunk (Some [0xC2]))),
                              Event (Some (Chunk (Some [0xA0])))]) = Inr [0xA0] \<and>
   py_strip [0xA0] = [] \<and>
   call_master_agent
     (\<lambda>sid t. Inr (Some [Event (Some (Chunk (Some [0xC2]))),
                           Event (Some (Chunk (Some [0xA0])))]))
     (ascii ''hello'') (ascii ''session-1'') = (1, Inl UnicodeDecodeError)"
proof (intro conjI)
  show "utf8_decode (stream_bytes [Event (Some (Chunk (Some [0xC2]))),
                              Event (Some (Chunk (Some [0xA0])))]) = Inr [0xA0]"
    by code_simp
next
  show "py_strip [0xA0] = []" by code_simp
next
  show "call_master_agent
     (\<lambda>sid t. Inr (Some [Event (Some (Chunk (Some [0xC2]))),
                           Event (Some (Chunk (Some [0xA0])))]))
     (ascii ''hello'') (ascii ''session-1'') = (1, Inl UnicodeDecodeError)"
    by code_simp
qed

end
